theory Spec2Isabelle
  imports Main "HOL-Library.Sublist" "HOL-Library.Multiset"
begin

section \<open>Connection configuration and process environment\<close>

text \<open>
  The plugin's connection configuration (\<open>azureADConfig\<close>, read through \<open>GetConfig\<close>):
  every field is a pointer in the Go source, \<open>nil\<close> when the option is not set; here
  \<open>None\<close>.
\<close>

record azureADConfig =
  TenantID :: "string option"
  ClientID :: "string option"
  ClientSecret :: "string option"
  CertificatePath :: "string option"
  CertificatePassword :: "string option"
  Environment :: "string option"
  EnableMsi :: "bool option"
  MsiEndpoint :: "string option"

text \<open>
  The environment of the running process: the list behind \<open>os.Environ()\<close>, one pair per
  variable. \<open>os.Getenv\<close> returns the empty string for a variable that is not set.
\<close>

type_synonym environ = "(string \<times> string) list"

definition Getenv :: "environ \<Rightarrow> string \<Rightarrow> string" where
  "Getenv env k = (case map_of env k of None \<Rightarrow> [] | Some v \<Rightarrow> v)"

definition Environ :: "environ \<Rightarrow> string list" where
  "Environ env = map (\<lambda>(k, v). k @ ''='' @ v) env"

text \<open>The pattern \<open>if config.X != nil { x = *config.X } else { x = os.Getenv(name) }\<close>.\<close>

definition fromConfigOrEnv :: "string option \<Rightarrow> environ \<Rightarrow> string \<Rightarrow> string" where
  "fromConfigOrEnv field env name = (case field of Some v \<Rightarrow> v | None \<Rightarrow> Getenv env name)"

section \<open>Credential resolution for the Hamilton session\<close>

datatype cloud_environment = China | USGovernmentL4 | Germany | Global

text \<open>
  The fields of Hamilton's \<open>auth.Config\<close> that the resolver writes. The zero value of the
  Go struct has every string empty and every flag false; the resolver always sets the
  environment.
\<close>

record auth_Config =
  auth_Environment :: cloud_environment
  auth_TenantID :: string
  auth_ClientID :: string
  auth_ClientSecret :: string
  auth_ClientCertPath :: string
  auth_ClientCertPassword :: string
  auth_MsiEndpoint :: string
  EnableClientSecretAuth :: bool
  EnableClientCertAuth :: bool
  EnableMsiAuth :: bool
  EnableAzureCliToken :: bool

definition hamiltonEnvironment :: "string \<Rightarrow> cloud_environment" where
  "hamiltonEnvironment environment =
     (if environment = ''AZURECHINACLOUD'' then China
      else if environment = ''AZUREUSGOVERNMENTCLOUD'' then USGovernmentL4
      else if environment = ''AZUREGERMANCLOUD'' then Germany
      else Global)"

definition zeroAuthConfig :: "cloud_environment \<Rightarrow> auth_Config" where
  "zeroAuthConfig e =
     \<lparr> auth_Environment = e, auth_TenantID = [], auth_ClientID = [],
       auth_ClientSecret = [], auth_ClientCertPath = [], auth_ClientCertPassword = [],
       auth_MsiEndpoint = [], EnableClientSecretAuth = False,
       EnableClientCertAuth = False, EnableMsiAuth = False,
       EnableAzureCliToken = False \<rparr>"

text \<open>
  \<open>getApplicableAuthorizationDetails\<close> of \<open>azuread/service.go\<close>. It returns the
  triple \<open>(authMethod, authConfig, err)\<close>; \<open>err\<close> is the named result of the Go
  function (\<open>None\<close> is \<open>nil\<close>).
\<close>

definition getApplicableAuthorizationDetails ::
    "environ \<Rightarrow> azureADConfig \<Rightarrow> string \<times> auth_Config \<times> string option" where
  "getApplicableAuthorizationDetails env config =
     (let tenantID = fromConfigOrEnv (TenantID config) env ''AZURE_TENANT_ID'';
          environment = fromConfigOrEnv (Environment config) env ''AZURE_ENVIRONMENT'';
          authConfig = zeroAuthConfig (hamiltonEnvironment environment);
          clientID = fromConfigOrEnv (ClientID config) env ''AZURE_CLIENT_ID'';
          clientSecret = fromConfigOrEnv (ClientSecret config) env ''AZURE_CLIENT_SECRET'';
          certificatePath =
            fromConfigOrEnv (CertificatePath config) env ''AZURE_CERTIFICATE_PATH'';
          certificatePassword =
            fromConfigOrEnv (CertificatePassword config) env ''AZURE_CERTIFICATE_PASSWORD'';
          enableMsi = (case EnableMsi config of Some b \<Rightarrow> b | None \<Rightarrow> False);
          msiEndpoint =
            (case EnableMsi config of
               None \<Rightarrow> ''http://169.254.169.254/metadata/identity/oauth2/token''
             | Some _ \<Rightarrow>
                 (case MsiEndpoint config of
                    Some e \<Rightarrow> e
                  | None \<Rightarrow> ''http://169.254.169.254/metadata/identity/oauth2/token''))
      in if tenantID = [] then
           (''CLI'', authConfig\<lparr>EnableAzureCliToken := True\<rparr>, None)
         else if tenantID \<noteq> [] \<and> clientID \<noteq> [] \<and> clientSecret \<noteq> [] then
           (''EnableClientSecretAuth'',
            authConfig\<lparr>auth_TenantID := tenantID, auth_ClientID := clientID,
                        auth_ClientSecret := clientSecret,
                        EnableClientSecretAuth := True\<rparr>, None)
         else if tenantID \<noteq> [] \<and> clientID \<noteq> [] \<and> certificatePath \<noteq> []
                 \<and> certificatePassword \<noteq> [] then
           (''EnableClientCertificateAuth'',
            authConfig\<lparr>auth_TenantID := tenantID, auth_ClientID := clientID,
                        auth_ClientCertPath := certificatePath,
                        auth_ClientCertPassword := certificatePassword,
                        EnableClientCertAuth := True\<rparr>, None)
         else if enableMsi then
           (''EnableMsiAuth'',
            authConfig\<lparr>EnableMsiAuth := True, auth_MsiEndpoint := msiEndpoint,
                        auth_TenantID := tenantID, auth_ClientID := clientID\<rparr>, None)
         else (''CLI'', authConfig, None))"

text \<open>
  The earlier revision of the same function that the repository also carries (the copy of
  \<open>service.go\<close> built against the unversioned plugin SDK): no managed-identity tier, and
  the certificate tier does not ask for a client id.
\<close>

definition getApplicableAuthorizationDetails_v0 ::
    "environ \<Rightarrow> azureADConfig \<Rightarrow> string \<times> auth_Config \<times> string option" where
  "getApplicableAuthorizationDetails_v0 env config =
     (let tenantID = fromConfigOrEnv (TenantID config) env ''AZURE_TENANT_ID'';
          environment = fromConfigOrEnv (Environment config) env ''AZURE_ENVIRONMENT'';
          authConfig = zeroAuthConfig (hamiltonEnvironment environment);
          clientID = fromConfigOrEnv (ClientID config) env ''AZURE_CLIENT_ID'';
          clientSecret = fromConfigOrEnv (ClientSecret config) env ''AZURE_CLIENT_SECRET'';
          certificatePath =
            fromConfigOrEnv (CertificatePath config) env ''AZURE_CERTIFICATE_PATH'';
          certificatePassword =
            fromConfigOrEnv (CertificatePassword config) env ''AZURE_CERTIFICATE_PASSWORD''
      in if tenantID = [] then
           (''CLI'', authConfig\<lparr>EnableAzureCliToken := True\<rparr>, None)
         else if tenantID \<noteq> [] \<and> clientID \<noteq> [] \<and> clientSecret \<noteq> [] then
           (''EnableClientSecretAuth'',
            authConfig\<lparr>auth_TenantID := tenantID, auth_ClientID := clientID,
                        auth_ClientSecret := clientSecret,
                        EnableClientSecretAuth := True\<rparr>, None)
         else if tenantID \<noteq> [] \<and> certificatePath \<noteq> [] \<and> certificatePassword \<noteq> [] then
           (''EnableClientCertificateAuth'',
            authConfig\<lparr>auth_TenantID := tenantID,
                        auth_ClientCertPath := certificatePath,
                        auth_ClientCertPassword := certificatePassword,
                        EnableClientCertAuth := True\<rparr>, None)
         else (''CLI'', authConfig, None))"

section \<open>Launching the Azure CLI\<close>

text \<open>
  The host the plugin runs on, as far as \<open>getTenantFromCLI\<close> depends on it:
  \<open>runtime.GOOS\<close>, which paths name an executable file, what running a prepared
  command prints (\<open>cliCmd.Output()\<close>: an error, or the bytes of standard output), and
  the result of \<open>json.Unmarshal\<close> into the token response (an error, or the
  \<open>tenant\<close> member).
\<close>

record Cmd =
  Path :: string
  Args :: "string list"
  Env :: "string list"
  Err :: "string option"

record host =
  GOOS :: string
  findExecutable :: "string \<Rightarrow> bool"
  Output :: "Cmd \<Rightarrow> string + string"
  UnmarshalTenant :: "string \<Rightarrow> string + string"

text \<open>\<open>strings.Split(s, sep)\<close> for a one-byte separator.\<close>

fun Split :: "char \<Rightarrow> string \<Rightarrow> string list" where
  "Split sep [] = [] # []"
| "Split sep (c # cs) =
     (if c = sep then [] # Split sep cs
      else (case Split sep cs of
              [] \<Rightarrow> (c # []) # []
            | w # ws \<Rightarrow> (c # w) # ws))"

text \<open>\<open>filepath.SplitList\<close> on Unix: the empty string has no entries.\<close>

definition SplitList :: "string \<Rightarrow> string list" where
  "SplitList path = (if path = [] then [] else Split (CHR '':'') path)"

text \<open>
  \<open>exec.LookPath\<close> of Go's \<open>os/exec\<close> on Unix (\<open>lp_unix.go\<close>), the function behind
  \<open>exec.Command\<close> for a name without a path separator. It searches the directories of
  the \<open>PATH\<close> of the calling process, read with \<open>os.Getenv\<close>. The result is the
  path found and the error; a match that is not an absolute path is returned with the
  error of a relative lookup. \<open>filepath.Join\<close> is written for directory names that are
  already clean (no trailing slash, no dot segments besides the directory \<open>.\<close> itself,
  which joins to the bare file name). A lookup error is an \<open>*exec.Error\<close>, which
  prints as \<open>exec: \<close>, the quoted name, a colon and the cause (\<open>strconv.Quote\<close> of
  a name of plain letters is the name between double quotes).
\<close>

definition exec_Error :: "string \<Rightarrow> string \<Rightarrow> string" where
  "exec_Error name cause = ''exec: '' @ [CHR 0x22] @ name @ [CHR 0x22] @ '': '' @ cause"

definition joinDir :: "string \<Rightarrow> string \<Rightarrow> string" where
  "joinDir dir file = (if dir = [] \<or> dir = ''.'' then file else dir @ ''/'' @ file)"

fun lookInDirs :: "(string \<Rightarrow> bool) \<Rightarrow> string list \<Rightarrow> string \<Rightarrow> string \<times> string option" where
  "lookInDirs fx [] file = ([], Some (exec_Error file ''executable file not found in $PATH''))"
| "lookInDirs fx (dir # dirs) file =
     (let d = (if dir = [] then ''.'' else dir);
          path = joinDir d file
      in if fx path then
           (if take 1 path = ''/'' then (path, None)
            else (path, Some (exec_Error file
                                ''cannot run executable found relative to current directory'')))
         else lookInDirs fx dirs file)"

definition LookPath :: "host \<Rightarrow> environ \<Rightarrow> string \<Rightarrow> string \<times> string option" where
  "LookPath h env file =
     (if CHR ''/'' \<in> set file then
        (if findExecutable h file then (file, None)
         else ([], Some (exec_Error file (''stat '' @ file @ '': no such file or directory''))))
      else lookInDirs (findExecutable h) (SplitList (Getenv env ''PATH'')) file)"

text \<open>
  \<open>exec.Command(name, arg...)\<close>: the command starts with \<open>Path = name\<close> and
  \<open>Args = name # arg\<close>; when \<open>name\<close> has no path separator
  (\<open>filepath.Base(name) == name\<close>) it is resolved with \<open>LookPath\<close> at once, and a
  lookup error is kept in the command and returned when it is run.
\<close>

definition Command :: "host \<Rightarrow> environ \<Rightarrow> string \<Rightarrow> string list \<Rightarrow> Cmd" where
  "Command h env name arg =
     (if CHR ''/'' \<in> set name \<or> (GOOS h = ''windows'' \<and> (CHR 0x5C \<in> set name \<or> CHR '':'' \<in> set name))
      then \<lparr> Path = name, Args = name # arg, Env = [], Err = None \<rparr>
      else (let (lp, err) = LookPath h env name
            in \<lparr> Path = (if lp \<noteq> [] then lp else name), Args = name # arg,
                 Env = [], Err = err \<rparr>))"

text \<open>
  \<open>getTenantFromCLI\<close>, lines 196 to 218 of \<open>azuread/service.go\<close>: the command that is
  prepared. \<open>fmt.Sprintf\<close> with \<open>%s\<close> is concatenation.
\<close>

definition azureCLIPath :: string where
  "azureCLIPath = ''AzureCLIPath''"

definition azureCLIDefaultPath :: string where
  "azureCLIDefaultPath = ''/bin:/sbin:/usr/bin:/usr/local/bin''"

definition azureCLIDefaultPathWindows :: "environ \<Rightarrow> string" where
  "azureCLIDefaultPathWindows env =
     Getenv env ''ProgramFiles(x86)'' @ [CHR 0x5C] @ ''Microsoft SDKs'' @ [CHR 0x5C]
       @ ''Azure'' @ [CHR 0x5C] @ ''CLI2'' @ [CHR 0x5C] @ ''wbin; ''
       @ Getenv env ''ProgramFiles'' @ [CHR 0x5C] @ ''Microsoft SDKs'' @ [CHR 0x5C]
       @ ''Azure'' @ [CHR 0x5C] @ ''CLI2'' @ [CHR 0x5C] @ ''wbin''"

definition getTenantFromCLI_cmd :: "host \<Rightarrow> environ \<Rightarrow> Cmd" where
  "getTenantFromCLI_cmd h env =
     (let cliCmd =
        (if GOOS h = ''windows'' then
           (let c = Command h env
                      (Getenv env ''windir'' @ [CHR 0x5C] @ ''system32'' @ [CHR 0x5C] @ ''cmd.exe'') []
            in c\<lparr> Env := Environ env
                       @ [''PATH='' @ Getenv env azureCLIPath @ '';''
                            @ azureCLIDefaultPathWindows env],
                  Args := Args c @ [''/c'', ''az''] \<rparr>)
         else
           (let c = Command h env ''az'' []
            in c\<lparr> Env := Environ env
                       @ [''PATH='' @ Getenv env azureCLIPath @ '':'' @ azureCLIDefaultPath] \<rparr>))
      in cliCmd\<lparr> Args := Args cliCmd
           @ [''account'', ''get-access-token'', ''--resource-type=ms-graph'', ''-o'', ''json''] \<rparr>)"

text \<open>
  The whole function: run the command, parse its output, return the tenant. A command
  whose lookup failed does not start (\<open>Cmd.Start\<close> returns the kept error).
\<close>

definition getTenantFromCLI :: "host \<Rightarrow> environ \<Rightarrow> string + string" where
  "getTenantFromCLI h env =
     (let cliCmd = getTenantFromCLI_cmd h env;
          res = (case Err cliCmd of Some e \<Rightarrow> Inl e | None \<Rightarrow> Output h cliCmd)
      in case res of
           Inl e \<Rightarrow> Inl (''Invoking Azure CLI failed with the following error: '' @ e)
         | Inr output \<Rightarrow> UnmarshalTenant h output)"

text \<open>
  What the started process sees for a variable: \<open>os/exec\<close> keeps, of entries of
  \<open>Cmd.Env\<close> with the same key, the last one.
\<close>

fun envKey :: "string \<Rightarrow> string" where
  "envKey [] = []"
| "envKey (c # cs) = (if c = CHR ''='' then [] else c # envKey cs)"

fun envValue :: "string \<Rightarrow> string" where
  "envValue [] = []"
| "envValue (c # cs) = (if c = CHR ''='' then cs else envValue cs)"

fun childGetenv :: "string list \<Rightarrow> string \<Rightarrow> string option" where
  "childGetenv [] k = None"
| "childGetenv (kv # kvs) k =
     (case childGetenv kvs k of
        Some v \<Rightarrow> Some v
      | None \<Rightarrow> (if CHR ''='' \<in> set kv \<and> envKey kv = k then Some (envValue kv) else None))"

section \<open>Sessions, clients and the connection cache\<close>

text \<open>
  What a call can end in: a returned value, a returned error, \<open>log.Fatal\<close> (the process
  exits) or a run-time panic (a failed type assertion).
\<close>

datatype 'a outcome = Ok 'a | Error string | Fatal string | Panic string

datatype Authorizer = Authorizer auth_Config

record Session =
  Session_TenantID :: string
  Session_Authorizer :: Authorizer

datatype cloud_Configuration = AzureChina | AzureGovernment | AzurePublic

text \<open>
  A value of the interface \<open>azcore.TokenCredential\<close> that is not the \<open>nil\<close>
  interface: one of the four credentials, or a \<open>nil\<close> pointer of a credential type
  held in the interface (what remains in \<open>cred\<close> after a constructor that returned
  \<open>nil\<close> and an error; it does not compare equal to \<open>nil\<close>).
\<close>

datatype TokenCredential =
    AzureCLICredential
  | ClientSecretCredential string string string cloud_Configuration
  | ClientCertificateCredential string string string cloud_Configuration
  | ManagedIdentityCredential
  | ClientCertificateCredential_nil
  | ManagedIdentityCredential_nil

datatype AuthenticationProvider = AzureIdentityAuthenticationProvider "TokenCredential option"

datatype GraphRequestAdapter = GraphRequestAdapter AuthenticationProvider

datatype GraphServiceClient = GraphServiceClient GraphRequestAdapter

text \<open>
  A pointer to a struct allocated by the plugin is the address with the content the struct
  was built with (it is not written again): two allocations with equal content are
  different instances.
\<close>

type_synonym 'a ptr = "nat \<times> 'a"

datatype cached = CachedSession "Session ptr" | CachedClient "GraphServiceClient ptr"

text \<open>
  Modelled from the spec: the process-wide cache behind \<open>d.ConnectionManager.Cache\<close>
  belongs to the hosting plugin SDK and is not in the repository; the spec describes it as
  a named get/set key-value store with no expiry, so \<open>Get\<close> is a lookup in a finite map
  and \<open>Set\<close> an update of it. The state of the process is that map and the next free
  address.
\<close>

record process =
  Cache :: "string \<rightharpoonup> cached"
  next_addr :: nat

definition Cache_Get :: "process \<Rightarrow> string \<Rightarrow> cached option" where
  "Cache_Get p key = Cache p key"

definition Cache_Set :: "process \<Rightarrow> string \<Rightarrow> cached \<Rightarrow> process" where
  "Cache_Set p key v = p\<lparr> Cache := (Cache p)(key \<mapsto> v) \<rparr>"

definition new_ptr :: "process \<Rightarrow> 'a \<Rightarrow> 'a ptr \<times> process" where
  "new_ptr p v = ((next_addr p, v), p\<lparr> next_addr := Suc (next_addr p) \<rparr>)"

text \<open>
  The constructors of the authentication libraries, each of which may return an error
  instead of a value: Hamilton's \<open>authConfig.NewAuthorizer\<close>, the \<open>azidentity\<close>
  credential constructors, \<open>os.ReadFile\<close> and \<open>azidentity.ParseCertificates\<close>
  (password \<open>None\<close> for \<open>nil\<close>), and the two Graph SDK constructors.
\<close>

record sdk =
  NewAuthorizer :: "auth_Config \<Rightarrow> string option"
  NewAzureCLICredential :: "string option"
  NewClientSecretCredential :: "string \<Rightarrow> string \<Rightarrow> string \<Rightarrow> string option"
  ReadFile :: "string \<Rightarrow> string + string"
  ParseCertificates :: "string \<Rightarrow> string option \<Rightarrow> string + string"
  NewClientCertificateCredential :: "string \<Rightarrow> string \<Rightarrow> string \<Rightarrow> string option"
  NewManagedIdentityCredential :: "string option"
  NewAzureIdentityAuthenticationProvider :: "TokenCredential option \<Rightarrow> string option"
  NewGraphRequestAdapter :: "AuthenticationProvider \<Rightarrow> string option"

text \<open>\<open>GetNewSession\<close> of \<open>azuread/service.go\<close>.\<close>

definition GetNewSession ::
    "sdk \<Rightarrow> host \<Rightarrow> environ \<Rightarrow> azureADConfig \<Rightarrow> process \<Rightarrow> Session ptr outcome \<times> process" where
  "GetNewSession lib h env config p =
     (case Cache_Get p ''GetNewSession'' of
        Some cachedData \<Rightarrow>
          (case cachedData of
             CachedSession s \<Rightarrow> (Ok s, p)
           | CachedClient _ \<Rightarrow> (Panic ''interface conversion'', p))
      | None \<Rightarrow>
          (case getApplicableAuthorizationDetails env config of
             (authMethod, authConfig, Some err) \<Rightarrow> (Error err, p)
           | (authMethod, authConfig, None) \<Rightarrow>
               (let tenantID = (if auth_TenantID authConfig \<noteq> [] then auth_TenantID authConfig
                                else [])
                in case NewAuthorizer lib authConfig of
                     Some err \<Rightarrow> (Fatal err, p)
                   | None \<Rightarrow>
                       (let authorizer = Authorizer authConfig;
                            cli = (if authMethod = ''CLI'' then getTenantFromCLI h env
                                   else Inr tenantID)
                        in case cli of
                             Inl err \<Rightarrow> (Error err, p)
                           | Inr tenantID' \<Rightarrow>
                               (let (sess, p') =
                                      new_ptr p \<lparr> Session_TenantID = tenantID',
                                                  Session_Authorizer = authorizer \<rparr>
                                in (Ok sess, Cache_Set p' ''GetNewSession'' (CachedSession sess)))))))"

text \<open>
  \<open>GetNewSession\<close> in the earlier revision of the file: the lookup in the cache is
  commented out there, the session is stored under the key \<open>authMethod\<close>.
\<close>

definition GetNewSession_v0 ::
    "sdk \<Rightarrow> host \<Rightarrow> environ \<Rightarrow> azureADConfig \<Rightarrow> process \<Rightarrow> Session ptr outcome \<times> process" where
  "GetNewSession_v0 lib h env config p =
     (case getApplicableAuthorizationDetails_v0 env config of
        (authMethod, authConfig, Some err) \<Rightarrow> (Error err, p)
      | (authMethod, authConfig, None) \<Rightarrow>
          (let tenantID = (if auth_TenantID authConfig \<noteq> [] then auth_TenantID authConfig
                           else [])
           in case NewAuthorizer lib authConfig of
                Some err \<Rightarrow> (Fatal err, p)
              | None \<Rightarrow>
                  (let authorizer = Authorizer authConfig;
                       cli = (if authMethod = ''CLI'' then getTenantFromCLI h env
                              else Inr tenantID)
                   in case cli of
                        Inl err \<Rightarrow> (Error err, p)
                      | Inr tenantID' \<Rightarrow>
                          (let (sess, p') =
                                 new_ptr p \<lparr> Session_TenantID = tenantID',
                                             Session_Authorizer = authorizer \<rparr>
                           in (Ok sess, Cache_Set p' ''authMethod'' (CachedSession sess))))))"

text \<open>
  \<open>GetGraphClient\<close>, lines 251 to 368: the choice and construction of the credential.
  \<open>Inl\<close> is an early return with an error; \<open>Inr\<close> is the value of \<open>cred\<close> at line
  370, \<open>None\<close> when it is still the \<open>nil\<close> interface because no branch applied.
  The errors of the certificate and managed-identity constructors are not looked at:
  after a failure \<open>cred\<close> holds the \<open>nil\<close> pointer the constructor returned.
\<close>

definition graphCloudConfiguration :: "string \<Rightarrow> cloud_Configuration" where
  "graphCloudConfiguration environment =
     (if environment = ''AZURECHINACLOUD'' then AzureChina
      else if environment = ''AZUREUSGOVERNMENTCLOUD'' then AzureGovernment
      else AzurePublic)"

definition GetGraphClient_cred ::
    "sdk \<Rightarrow> environ \<Rightarrow> azureADConfig \<Rightarrow> string + TokenCredential option" where
  "GetGraphClient_cred lib env azureADConfig =
     (let tenantID = fromConfigOrEnv (TenantID azureADConfig) env ''AZURE_TENANT_ID'';
          environment = fromConfigOrEnv (Environment azureADConfig) env ''AZURE_ENVIRONMENT'';
          enableMsi = (case EnableMsi azureADConfig of Some b \<Rightarrow> b | None \<Rightarrow> False);
          clientID = fromConfigOrEnv (ClientID azureADConfig) env ''AZURE_CLIENT_ID'';
          clientSecret = fromConfigOrEnv (ClientSecret azureADConfig) env ''AZURE_CLIENT_SECRET'';
          certificatePath =
            fromConfigOrEnv (CertificatePath azureADConfig) env ''AZURE_CERTIFICATE_PATH'';
          certificatePassword =
            fromConfigOrEnv (CertificatePassword azureADConfig) env ''AZURE_CERTIFICATE_PASSWORD'';
          cloudConfiguration = graphCloudConfiguration environment
      in if tenantID = [] then
           (case NewAzureCLICredential lib of
              Some err \<Rightarrow> Inl (''error creating credentials: '' @ err)
            | None \<Rightarrow> Inr (Some AzureCLICredential))
         else if tenantID \<noteq> [] \<and> clientID \<noteq> [] \<and> clientSecret \<noteq> [] then
           (case NewClientSecretCredential lib tenantID clientID clientSecret of
              Some err \<Rightarrow> Inl (''error creating credentials: '' @ err)
            | None \<Rightarrow>
                Inr (Some (ClientSecretCredential tenantID clientID clientSecret
                             cloudConfiguration)))
         else if tenantID \<noteq> [] \<and> clientID \<noteq> [] \<and> certificatePath \<noteq> [] then
           (case ReadFile lib certificatePath of
              Inl err \<Rightarrow>
                Inl (''error reading certificate from '' @ certificatePath @ '': '' @ err)
            | Inr loadFile \<Rightarrow>
                (case ParseCertificates lib loadFile
                        (if certificatePassword = [] then None else Some certificatePassword) of
                   Inl err \<Rightarrow>
                     Inl (''error parsing certificate from '' @ certificatePath @ '': '' @ err)
                 | Inr certs \<Rightarrow>
                     (case NewClientCertificateCredential lib tenantID clientID certs of
                        Some err \<Rightarrow> Inr (Some ClientCertificateCredential_nil)
                      | None \<Rightarrow>
                          Inr (Some (ClientCertificateCredential tenantID clientID certs
                                       cloudConfiguration)))))
         else if enableMsi then
           (case NewManagedIdentityCredential lib of
              Some err \<Rightarrow> Inr (Some ManagedIdentityCredential_nil)
            | None \<Rightarrow> Inr (Some ManagedIdentityCredential))
         else Inr None)"

text \<open>
  \<open>GetGraphClient\<close>: the client and the request adapter. A hit in the cache returns the
  stored client and \<open>nil\<close> for the adapter.
\<close>

definition GetGraphClient ::
    "sdk \<Rightarrow> environ \<Rightarrow> azureADConfig \<Rightarrow> process
       \<Rightarrow> (GraphServiceClient ptr \<times> GraphRequestAdapter ptr option) outcome \<times> process" where
  "GetGraphClient lib env azureADConfig p =
     (case Cache_Get p ''GetGraphClient'' of
        Some cachedData \<Rightarrow>
          (case cachedData of
             CachedClient c \<Rightarrow> (Ok (c, None), p)
           | CachedSession _ \<Rightarrow> (Panic ''interface conversion'', p))
      | None \<Rightarrow>
          (case GetGraphClient_cred lib env azureADConfig of
             Inl err \<Rightarrow> (Error err, p)
           | Inr cred \<Rightarrow>
               (case NewAzureIdentityAuthenticationProvider lib cred of
                  Some err \<Rightarrow> (Error (''error creating authentication provider: '' @ err), p)
                | None \<Rightarrow>
                    (let auth = AzureIdentityAuthenticationProvider cred
                     in case NewGraphRequestAdapter lib auth of
                          Some err \<Rightarrow> (Error (''error creating graph adapter: '' @ err), p)
                        | None \<Rightarrow>
                            (let (adapter, p1) = new_ptr p (GraphRequestAdapter auth);
                                 (client, p2) = new_ptr p1 (GraphServiceClient (snd adapter))
                             in (Ok (client, Some adapter),
                                 Cache_Set p2 ''GetGraphClient'' (CachedClient client)))))))"

section \<open>Error normalisation and the ignorable-error predicate\<close>

record RequestError =
  Code :: string
  Message :: string

text \<open>
  An error returned by a Graph SDK call: an \<open>*odataerrors.ODataError\<close>, whose main
  error has a code and a message behind pointers, or any other error with its text.
\<close>

datatype sdk_error = ODataError "string option" "string option" | PlainError string

text \<open>\<open>getErrorObject\<close>; dereferencing a \<open>nil\<close> code or message panics.\<close>

definition getErrorObject :: "sdk_error \<Rightarrow> RequestError option" where
  "getErrorObject err =
     (case err of
        ODataError code message \<Rightarrow>
          (case (code, message) of
             (Some c, Some m) \<Rightarrow> Some \<lparr> Code = c, Message = m \<rparr>
           | _ \<Rightarrow> None)
      | PlainError text \<Rightarrow> Some \<lparr> Code = [], Message = text \<rparr>)"

text \<open>
  A value of Go's \<open>error\<close> interface as the predicate sees it: a \<open>*RequestError\<close>
  (the pointer may be \<open>nil\<close> inside a non-nil interface) or an error of another type.
  \<open>None\<close> at the outside is the \<open>nil\<close> interface.
\<close>

datatype go_error = RequestError_ptr "RequestError option" | Other_error string

text \<open>\<open>strings.Contains(s, substr)\<close>: \<open>substr\<close> occurs in \<open>s\<close> at some position.\<close>

fun Contains :: "string \<Rightarrow> string \<Rightarrow> bool" where
  "Contains [] substr = (substr = [])"
| "Contains (c # s) substr = (prefix substr (c # s) \<or> Contains s substr)"

text \<open>The loop over \<open>ignoreErrorCodes\<close> inside the predicate.\<close>

fun ignorable_items :: "RequestError option \<Rightarrow> string list \<Rightarrow> bool" where
  "ignorable_items terr [] = False"
| "ignorable_items terr (item # items) =
     (case terr of
        Some t \<Rightarrow>
          (if Code t = item \<or> Contains (Message t) item then True
           else ignorable_items terr items)
      | None \<Rightarrow> ignorable_items terr items)"

text \<open>\<open>isIgnorableErrorPredicate\<close>: the predicate it returns, applied to \<open>err\<close>.\<close>

definition isIgnorableErrorPredicate :: "string list \<Rightarrow> go_error option \<Rightarrow> bool" where
  "isIgnorableErrorPredicate ignoreErrorCodes err =
     (case err of
        None \<Rightarrow> False
      | Some (RequestError_ptr terr) \<Rightarrow> ignorable_items terr ignoreErrorCodes
      | Some (Other_error _) \<Rightarrow> False)"

text \<open>
  The ignore list of the \<open>Get\<close> configuration of \<open>azuread_directory_audit_report\<close>,
  and the \<open>List\<close> configuration of the same table, which has no ignore configuration.
\<close>

definition directoryAuditReport_Get_ignore :: "string list" where
  "directoryAuditReport_Get_ignore = [''Request_ResourceNotFound'', ''Invalid object identifier'']"

definition directoryAuditReport_List_ignore :: "string list" where
  "directoryAuditReport_List_ignore = []"

section \<open>The query filter of the directory audit report\<close>

text \<open>
  A qual value (\<open>*proto.QualValue\<close>): a string, a timestamp, or a value of another kind.
  A timestamp is the instant \<open>AsTime()\<close> returns, counted in nanoseconds from the Unix
  epoch; \<open>Add\<close> is addition of a duration in nanoseconds. \<open>GetStringValue\<close> of a value
  that is not a string is empty, \<open>GetTimestampValue().AsTime()\<close> of a value that is not
  a timestamp is the epoch.
\<close>

type_synonym Time = int

datatype QualValue = StringValue string | TimestampValue Time | OtherValue

definition GetStringValue :: "QualValue \<Rightarrow> string" where
  "GetStringValue v = (case v of StringValue s \<Rightarrow> s | _ \<Rightarrow> [])"

definition GetTimestampValue_AsTime :: "QualValue \<Rightarrow> Time" where
  "GetTimestampValue_AsTime v = (case v of TimestampValue t \<Rightarrow> t | _ \<Rightarrow> 0)"

definition Second :: int where
  "Second = 1000000000"

definition Add :: "Time \<Rightarrow> int \<Rightarrow> Time" where
  "Add t d = t + d"

record Qual =
  Operator :: string
  Value :: QualValue

text \<open>
  The part of \<open>plugin.QueryData\<close> a list call reads: the equality quals by column, all
  quals by column in the order they were given, and the row limit of the query.
\<close>

record QueryData =
  EqualsQuals :: "string \<rightharpoonup> QualValue"
  Quals :: "string \<rightharpoonup> Qual list"
  Limit :: "int option"

text \<open>\<open>strings.Join\<close>.\<close>

fun Join :: "string list \<Rightarrow> string \<Rightarrow> string" where
  "Join [] sep = []"
| "Join [x] sep = x"
| "Join (x # y # ys) sep = x @ sep @ Join (y # ys) sep"

text \<open>
  \<open>strcase.ToCamel\<close> on a name of lower-case letters, digits and underscores: the
  first letter and every letter after an underscore or a digit become upper case, the
  underscores go.
\<close>

definition lowerLetters :: string where
  "lowerLetters = ''abcdefghijklmnopqrstuvwxyz''"

definition upperLetters :: string where
  "upperLetters = ''ABCDEFGHIJKLMNOPQRSTUVWXYZ''"

definition toUpper :: "char \<Rightarrow> char" where
  "toUpper c = (case map_of (zip lowerLetters upperLetters) c of Some u \<Rightarrow> u | None \<Rightarrow> c)"

fun toCamelFrom :: "bool \<Rightarrow> string \<Rightarrow> string" where
  "toCamelFrom capNext [] = []"
| "toCamelFrom capNext (v # vs) =
     (if v \<in> set lowerLetters then
        (if capNext then toUpper v else v) # toCamelFrom False vs
      else if v \<in> set ''0123456789'' then v # toCamelFrom True vs
      else toCamelFrom (v = CHR ''_'') vs)"

definition ToCamel :: "string \<Rightarrow> string" where
  "ToCamel s = toCamelFrom True s"

text \<open>
  \<open>buildDirectoryAuditQueryFilter\<close>. The loop \<open>for qual := range filterQuals\<close> ranges
  over a Go map, and Go leaves the order in which \<open>range\<close> visits the keys of a map
  unspecified: it may differ from one execution of the loop to the next. The order of
  the visit is therefore an argument, \<open>order\<close>, one of the arrangements of the four keys.
\<close>

definition filterQuals :: "string list" where
  "filterQuals = [''activity_display_name'', ''category'', ''correlation_id'', ''result'']"

definition range_order :: "string list \<Rightarrow> bool" where
  "range_order order = (distinct order \<and> set order = set filterQuals)"

fun buildDirectoryAuditQueryFilter ::
    "string list \<Rightarrow> (string \<rightharpoonup> QualValue) \<Rightarrow> string list" where
  "buildDirectoryAuditQueryFilter [] equalQuals = []"
| "buildDirectoryAuditQueryFilter (qual # order) equalQuals =
     (case equalQuals qual of
        Some v \<Rightarrow>
          (ToCamel qual @ '' eq '' @ [CHR 0x27] @ GetStringValue v @ [CHR 0x27])
            # buildDirectoryAuditQueryFilter order equalQuals
      | None \<Rightarrow> buildDirectoryAuditQueryFilter order equalQuals)"

text \<open>
  The clause one qual on \<open>activity_date_time\<close> adds (the \<open>switch\<close> of lines 340 to 353;
  an operator outside the five adds nothing). \<open>Format\<close> is
  \<open>Time.Format(time.RFC3339)\<close>, a function of the instant.
\<close>

definition activityDateTime_clause :: "(Time \<Rightarrow> string) \<Rightarrow> Qual \<Rightarrow> string list" where
  "activityDateTime_clause Format q =
     (let givenTime = GetTimestampValue_AsTime (Value q)
      in if Operator q = ''>'' then
           [''activityDateTime ge '' @ Format (Add givenTime (Second * 1))]
         else if Operator q = ''>='' then [''activityDateTime ge '' @ Format givenTime]
         else if Operator q = ''='' then [''activityDateTime eq '' @ Format givenTime]
         else if Operator q = ''<='' then [''activityDateTime le '' @ Format givenTime]
         else if Operator q = ''<'' then
           [''activityDateTime le '' @ Format (Add givenTime ((-1) * Second))]
         else [])"

text \<open>
  \<open>listAdDirectoryAuditReports\<close>, lines 329 to 366: the list of clauses, and the value
  of \<open>input.Filter\<close> (\<open>None\<close> when it is left \<open>nil\<close>).
\<close>

definition directoryAudit_clauses ::
    "(Time \<Rightarrow> string) \<Rightarrow> string list \<Rightarrow> QueryData \<Rightarrow> string list" where
  "directoryAudit_clauses Format order d =
     buildDirectoryAuditQueryFilter order (EqualsQuals d)
       @ (case Quals d ''activity_date_time'' of
            None \<Rightarrow> []
          | Some qs \<Rightarrow> concat (map (activityDateTime_clause Format) qs))"

definition directoryAudit_Filter ::
    "(Time \<Rightarrow> string) \<Rightarrow> string list \<Rightarrow> QueryData \<Rightarrow> string option" where
  "directoryAudit_Filter Format order d =
     (let filter = directoryAudit_clauses Format order d;
          queryFilter = (case EqualsQuals d ''filter'' of
                           Some v \<Rightarrow> GetStringValue v
                         | None \<Rightarrow> [])
      in if queryFilter \<noteq> [] then Some queryFilter
         else if length filter > 0 then Some (Join filter '' and '')
         else None)"

text \<open>Lines 315 to 327: the page size sent with the request.\<close>

definition directoryAudit_Top :: "QueryData \<Rightarrow> int" where
  "directoryAudit_Top d =
     (case Limit d of
        Some limit \<Rightarrow> (if limit > 0 \<and> limit < 1000 then limit else 1000)
      | None \<Rightarrow> 1000)"

section \<open>Paged retrieval\<close>

text \<open>
  An item of a page as the visitor receives it (an \<open>interface{}\<close>): a directory audit
  or an object of another model type, for which the type assertion of the visitor fails.
  A paged result is the first page, already fetched and parsed by the request that
  returned it, and the results of following the next link after each page, in order: the
  objects of the page as the service sent them (their ids), or the error of the request.
  There is a next link exactly while that list is not empty. A page that the iterator
  fetches is parsed by the collection factory the iterator was constructed with.
\<close>

datatype pageItem = DirectoryAudit string | SignIn string

type_synonym paged = "pageItem list \<times> (string + string list) list"

datatype sdk_call =
    Call_DirectoryAudits_Get "string option" int
  | Call_NewPageIterator "GraphRequestAdapter ptr option"
  | Call_NextPage

text \<open>
  The state of one list call: the rows handed to \<open>d.StreamListItem\<close>, how often
  \<open>d.RowsRemaining\<close> has been asked, and the calls made to the Graph SDK.
\<close>

record exec =
  streamed :: "pageItem list"
  checks :: nat
  calls :: "sdk_call list"

definition exec0 :: exec where
  "exec0 = \<lparr> streamed = [], checks = 0, calls = [] \<rparr>"

text \<open>
  What one list call runs against. \<open>map_order\<close> is the order in which this execution
  ranges over the map of filter columns; \<open>Format\<close> is the RFC 3339 formatting of an
  instant; \<open>DirectoryAudits_Get\<close> is the first request, with the filter and the page
  size; \<open>NewPageIterator\<close> is the constructor of the page iterator, which may return an
  error (what a later request does through a \<open>nil\<close> adapter is not modelled);
  \<open>RowsRemaining k\<close> is what the \<open>k\<close>-th call of \<open>d.RowsRemaining\<close> returns
  (the row budget is kept by the plugin SDK; it is zero once the limit is reached or the
  query is cancelled).
\<close>

record run =
  map_order :: "string list"
  Format :: "Time \<Rightarrow> string"
  DirectoryAudits_Get :: "GraphServiceClient ptr \<Rightarrow> string option \<Rightarrow> int \<Rightarrow> sdk_error + paged"
  NewPageIterator :: "paged \<Rightarrow> GraphRequestAdapter ptr option \<Rightarrow> string option"
  RowsRemaining :: "nat \<Rightarrow> nat"

text \<open>
  The visitor of \<open>listAdDirectoryAuditReports\<close> (lines 385 to 393): stream the item if
  it is a directory audit, then return whether rows remain.
\<close>

fun isDirectoryAuditable :: "pageItem \<Rightarrow> bool" where
  "isDirectoryAuditable (DirectoryAudit _) = True"
| "isDirectoryAuditable (SignIn _) = False"

definition visitor :: "(nat \<Rightarrow> nat) \<Rightarrow> pageItem \<Rightarrow> exec \<Rightarrow> bool \<times> exec" where
  "visitor rowsRemaining item st =
     (let st1 = (if isDirectoryAuditable item then st\<lparr> streamed := streamed st @ [item] \<rparr>
                 else st);
          st2 = st1\<lparr> checks := Suc (checks st1) \<rparr>
      in (rowsRemaining (checks st2) \<noteq> 0, st2))"

text \<open>
  Modelled from the spec: \<open>PageIterator.Iterate\<close> belongs to the Graph SDK core and is
  not in the repository. The spec (section 4.4) gives it as a machine over Fetching,
  Emitting and Done: it starts emitting the first page; on each item it invokes the
  visitor, and when the visitor reports that no rows remain it is done at once; when a
  page is exhausted and there is a continuation it fetches the next page and emits it,
  or is done with the error of the fetch; without a continuation it is done.
  \<open>emit_page\<close> is the Emitting state on one page, returning whether to go on.
\<close>

fun emit_page :: "(pageItem \<Rightarrow> exec \<Rightarrow> bool \<times> exec) \<Rightarrow> pageItem list \<Rightarrow> exec \<Rightarrow> bool \<times> exec" where
  "emit_page callback [] st = (True, st)"
| "emit_page callback (item # items) st =
     (case callback item st of
        (True, st') \<Rightarrow> emit_page callback items st'
      | (False, st') \<Rightarrow> (False, st'))"

fun Iterate ::
    "(pageItem \<Rightarrow> exec \<Rightarrow> bool \<times> exec) \<Rightarrow> pageItem list \<Rightarrow> (string + pageItem list) list
       \<Rightarrow> exec \<Rightarrow> string option \<times> exec" where
  "Iterate callback page [] st = (None, snd (emit_page callback page st))"
| "Iterate callback page (next # rest) st =
     (case emit_page callback page st of
        (False, st') \<Rightarrow> (None, st')
      | (True, st') \<Rightarrow>
          (case next of
             Inl err \<Rightarrow> (Some err, st'\<lparr> calls := calls st' @ [Call_NextPage] \<rparr>)
           | Inr page' \<Rightarrow>
               Iterate callback page' rest (st'\<lparr> calls := calls st' @ [Call_NextPage] \<rparr>)))"

text \<open>
  \<open>listAdDirectoryAuditReports\<close>. The function returns \<open>(nil, err)\<close>; the result here
  is the error returned (\<open>None\<close> for \<open>nil\<close>), or that the call did not return. The
  factory it passes to \<open>NewPageIterator\<close> is
  \<open>models.CreateSignInCollectionResponseFromDiscriminatorValue\<close>, so the items of
  every page the iterator fetches are sign-ins.
\<close>

definition CreateSignInCollectionResponseFromDiscriminatorValue ::
    "string list \<Rightarrow> pageItem list" where
  "CreateSignInCollectionResponseFromDiscriminatorValue objects = map SignIn objects"

datatype list_result = Returned "go_error option" | Aborted string

definition listAdDirectoryAuditReports ::
    "sdk \<Rightarrow> run \<Rightarrow> environ \<Rightarrow> azureADConfig \<Rightarrow> QueryData \<Rightarrow> process \<Rightarrow> exec
       \<Rightarrow> list_result \<times> process \<times> exec" where
  "listAdDirectoryAuditReports lib r env config d p st =
     (case GetGraphClient lib env config p of
        (Error err, p') \<Rightarrow> (Returned (Some (Other_error err)), p', st)
      | (Fatal m, p') \<Rightarrow> (Aborted m, p', st)
      | (Panic m, p') \<Rightarrow> (Aborted m, p', st)
      | (Ok (client, adapter), p') \<Rightarrow>
          (let top = directoryAudit_Top d;
               filter = directoryAudit_Filter (Format r) (map_order r) d;
               st1 = st\<lparr> calls := calls st @ [Call_DirectoryAudits_Get filter top] \<rparr>
           in case DirectoryAudits_Get r client filter top of
                Inl err \<Rightarrow>
                  (case getErrorObject err of
                     None \<Rightarrow> (Aborted ''nil pointer dereference'', p', st1)
                   | Some errObj \<Rightarrow> (Returned (Some (RequestError_ptr (Some errObj))), p', st1))
              | Inr result \<Rightarrow>
                  (let st2 = st1\<lparr> calls := calls st1 @ [Call_NewPageIterator adapter] \<rparr>
                   in case NewPageIterator r result adapter of
                        Some err \<Rightarrow> (Returned (Some (Other_error err)), p', st2)
                      | None \<Rightarrow>
                          (case Iterate (visitor (RowsRemaining r)) (fst result)
                                  (map (map_sum id CreateSignInCollectionResponseFromDiscriminatorValue)
                                     (snd result)) st2 of
                             (Some err, st3) \<Rightarrow> (Returned (Some (Other_error err)), p', st3)
                           | (None, st3) \<Rightarrow> (Returned None, p', st3)))))"

section \<open>Concrete configurations, hosts and libraries\<close>

text \<open>
  Inputs on which the definitions are run below: a configuration with nothing set and
  some with a secret or a certificate, libraries whose constructors all succeed (the
  authentication provider refuses a \<open>nil\<close> credential), an empty process and the
  process after a first successful \<open>GetGraphClient\<close>, a Unix host with the given
  executable files on which a started program prints its own path and that text is taken
  as the tenant, two environments that differ in \<open>PATH\<close> only, and a two-page result
  served to a list call whose row budget is three. \<open>lib_hamilton\<close> has Hamilton's
  \<open>NewAuthorizer\<close> as far as the configurations it refuses go: it tries the enabled
  methods in its order (certificate, secret, managed identity, CLI token), each under the
  fields it needs, and returns an error when none of them is enabled and complete.
\<close>

definition config_none :: azureADConfig where
  "config_none =
     \<lparr> TenantID = None, ClientID = None, ClientSecret = None, CertificatePath = None,
       CertificatePassword = None, Environment = None, EnableMsi = None,
       MsiEndpoint = None \<rparr>"

definition lib_ok :: sdk where
  "lib_ok =
     \<lparr> NewAuthorizer = (\<lambda>_. None),
       NewAzureCLICredential = None,
       NewClientSecretCredential = (\<lambda>_ _ _. None),
       ReadFile = (\<lambda>path. Inr (''pem:'' @ path)),
       ParseCertificates = (\<lambda>bytes pw. Inr bytes),
       NewClientCertificateCredential = (\<lambda>_ _ _. None),
       NewManagedIdentityCredential = None,
       NewAzureIdentityAuthenticationProvider =
         (\<lambda>cred. case cred of None \<Rightarrow> Some ''credential cannot be nil'' | Some _ \<Rightarrow> None),
       NewGraphRequestAdapter = (\<lambda>_. None) \<rparr>"

definition host_unix :: "string list \<Rightarrow> host" where
  "host_unix executables =
     \<lparr> GOOS = ''linux'', findExecutable = (\<lambda>path. path \<in> set executables),
       Output = (\<lambda>c. Inr (Path c)), UnmarshalTenant = Inr \<rparr>"

definition process0 :: process where
  "process0 = \<lparr> Cache = Map.empty, next_addr = 0 \<rparr>"

definition config_secret :: "string \<Rightarrow> azureADConfig" where
  "config_secret tenant =
     config_none\<lparr> TenantID := Some tenant, ClientID := Some ''app'',
                  ClientSecret := Some ''s3cret'' \<rparr>"

definition config_cert_no_password :: azureADConfig where
  "config_cert_no_password =
     config_none\<lparr> TenantID := Some ''contoso'', ClientID := Some ''app'',
                  CertificatePath := Some ''/etc/app.pem'' \<rparr>"

definition session_of :: "string \<Rightarrow> Session" where
  "session_of tenant =
     \<lparr> Session_TenantID = tenant,
       Session_Authorizer =
         Authorizer ((zeroAuthConfig Global)\<lparr> auth_TenantID := tenant, auth_ClientID := ''app'',
                       auth_ClientSecret := ''s3cret'', EnableClientSecretAuth := True \<rparr>) \<rparr>"

definition client_of :: "string \<Rightarrow> GraphServiceClient" where
  "client_of tenant =
     GraphServiceClient (GraphRequestAdapter (AzureIdentityAuthenticationProvider
       (Some (ClientSecretCredential tenant ''app'' ''s3cret'' AzurePublic))))"

definition page1 :: "pageItem list" where
  "page1 = [DirectoryAudit ''a1'', DirectoryAudit ''a2'', DirectoryAudit ''a3'', DirectoryAudit ''a4'']"

definition page2 :: "pageItem list" where
  "page2 = CreateSignInCollectionResponseFromDiscriminatorValue [''b1'', ''b2'']"

definition run_two_pages :: run where
  "run_two_pages =
     \<lparr> map_order = filterQuals, Format = (\<lambda>_. []),
       DirectoryAudits_Get = (\<lambda>_ _ _. Inr (page1, [Inr [''b1'', ''b2'']])),
       NewPageIterator = (\<lambda>_ _. None),
       RowsRemaining = (\<lambda>k. 3 - k) \<rparr>"

definition query_none :: QueryData where
  "query_none = \<lparr> EqualsQuals = Map.empty, Quals = Map.empty, Limit = None \<rparr>"

definition config_client_id_only :: azureADConfig where
  "config_client_id_only =
     config_none\<lparr> TenantID := Some ''contoso'', ClientID := Some ''app'' \<rparr>"

definition lib_hamilton :: sdk where
  "lib_hamilton =
     lib_ok\<lparr> NewAuthorizer :=
       (\<lambda>c. if EnableClientCertAuth c \<and> auth_TenantID c \<noteq> [] \<and> auth_ClientID c \<noteq> []
                  \<and> auth_ClientCertPath c \<noteq> [] then None
              else if EnableClientSecretAuth c \<and> auth_TenantID c \<noteq> [] \<and> auth_ClientID c \<noteq> []
                  \<and> auth_ClientSecret c \<noteq> [] then None
              else if EnableMsiAuth c then None
              else if EnableAzureCliToken c then None
              else Some ''no Authorizer could be configured, please check your configuration'') \<rparr>"

definition az_not_found :: string where
  "az_not_found =
     ''Invoking Azure CLI failed with the following error: ''
       @ exec_Error ''az'' ''executable file not found in $PATH''"

definition query_two :: QueryData where
  "query_two =
     \<lparr> EqualsQuals = [''category'' \<mapsto> StringValue ''UserManagement'',
                      ''result'' \<mapsto> StringValue ''success''],
       Quals = Map.empty, Limit = None \<rparr>"

definition query_time :: QueryData where
  "query_time =
     \<lparr> EqualsQuals = [''category'' \<mapsto> StringValue ''UserManagement'',
                      ''result'' \<mapsto> StringValue ''success''],
       Quals = [''activity_date_time'' \<mapsto>
                  [\<lparr> Operator = ''>='', Value = TimestampValue 1700000000000000000 \<rparr>,
                   \<lparr> Operator = ''<'', Value = TimestampValue 1700003600000000000 \<rparr>]],
       Limit = None \<rparr>"

definition env_planted :: environ where
  "env_planted = [(''PATH'', ''/tmp/planted:/usr/bin''), (''AzureCLIPath'', ''/opt/az/bin'')]"

definition env_clean :: environ where
  "env_clean = [(''PATH'', ''/usr/bin''), (''AzureCLIPath'', ''/opt/az/bin'')]"

definition host_three :: host where
  "host_three = host_unix [''/tmp/planted/az'', ''/usr/bin/az'', ''/opt/az/bin/az'']"

definition process_cached :: process where
  "process_cached =
     Cache_Set (process0\<lparr> next_addr := 2 \<rparr>) ''GetGraphClient''
       (CachedClient (1, client_of ''contoso''))"

section \<open>Properties of credential resolution\<close>

lemma getApplicable_err:
  "snd (snd (getApplicableAuthorizationDetails env config)) = None"
  by (simp add: getApplicableAuthorizationDetails_def Let_def)

text \<open>
  Claim C2. Whenever the resolved tenant id (the configured one, or else the value of
  \<open>AZURE_TENANT_ID\<close>) is empty, resolution selects the CLI method, whatever the client
  id, client secret, certificate and managed-identity fields hold: the Hamilton resolver
  returns the method \<open>CLI\<close> with only the CLI token enabled, and \<open>GetGraphClient\<close>
  builds the Azure CLI credential.
\<close>

theorem empty_tenant_selects_cli:
  assumes "fromConfigOrEnv (TenantID config) env ''AZURE_TENANT_ID'' = []"
  shows "fst (getApplicableAuthorizationDetails env config) = ''CLI''
     \<and> EnableAzureCliToken (fst (snd (getApplicableAuthorizationDetails env config)))
     \<and> \<not> EnableClientSecretAuth (fst (snd (getApplicableAuthorizationDetails env config)))
     \<and> \<not> EnableClientCertAuth (fst (snd (getApplicableAuthorizationDetails env config)))
     \<and> \<not> EnableMsiAuth (fst (snd (getApplicableAuthorizationDetails env config)))
     \<and> GetGraphClient_cred lib env config =
         (case NewAzureCLICredential lib of
            Some err \<Rightarrow> Inl (''error creating credentials: '' @ err)
          | None \<Rightarrow> Inr (Some AzureCLICredential))
     \<and> fst (getApplicableAuthorizationDetails_v0 env config) = ''CLI''
     \<and> EnableAzureCliToken (fst (snd (getApplicableAuthorizationDetails_v0 env config)))"
  using assms
  by (simp add: getApplicableAuthorizationDetails_def getApplicableAuthorizationDetails_v0_def
      GetGraphClient_cred_def Let_def zeroAuthConfig_def)

theorem empty_tenant_selects_cli_witness:
  "fromConfigOrEnv (TenantID (config_none\<lparr> ClientID := Some ''app'', ClientSecret := Some ''s3cret'',
        CertificatePath := Some ''/etc/app.pem'', EnableMsi := Some True \<rparr>)) [] ''AZURE_TENANT_ID'' = []
   \<and> fst (getApplicableAuthorizationDetails []
        (config_none\<lparr> ClientID := Some ''app'', ClientSecret := Some ''s3cret'',
        CertificatePath := Some ''/etc/app.pem'', EnableMsi := Some True \<rparr>)) = ''CLI''
   \<and> GetGraphClient_cred lib_ok []
        (config_none\<lparr> ClientID := Some ''app'', ClientSecret := Some ''s3cret'',
        CertificatePath := Some ''/etc/app.pem'', EnableMsi := Some True \<rparr>) = Inr (Some AzureCLICredential)"
  using empty_tenant_selects_cli [of "config_none\<lparr> ClientID := Some ''app'', ClientSecret := Some ''s3cret'',
        CertificatePath := Some ''/etc/app.pem'', EnableMsi := Some True \<rparr>" "[]" lib_ok]
  by (simp add: config_none_def fromConfigOrEnv_def Getenv_def lib_ok_def)

text \<open>
  Claim C3. The claim is that tenant, client id and certificate path suffice for
  certificate authentication, with or without a password. \<open>GetGraphClient\<close> does so;
  \<open>getApplicableAuthorizationDetails\<close> asks for a non-empty password as well, and
  without one the same configuration ends in the method \<open>CLI\<close> with no authentication
  enabled at all. The two resolvers evaluated at that configuration:
\<close>

theorem certificate_without_password_not_selected:
  "getApplicableAuthorizationDetails [] config_cert_no_password = (''CLI'', zeroAuthConfig Global, None)
   \<and> getApplicableAuthorizationDetails [] (config_cert_no_password\<lparr> CertificatePassword := Some ''pw'' \<rparr>)
       = (''EnableClientCertificateAuth'',
          (zeroAuthConfig Global)\<lparr> auth_TenantID := ''contoso'', auth_ClientID := ''app'',
             auth_ClientCertPath := ''/etc/app.pem'', auth_ClientCertPassword := ''pw'',
             EnableClientCertAuth := True \<rparr>, None)
   \<and> GetGraphClient_cred lib_ok [] config_cert_no_password
       = Inr (Some (ClientCertificateCredential ''contoso'' ''app'' ''pem:/etc/app.pem'' AzurePublic))
   \<and> getApplicableAuthorizationDetails_v0 [] config_cert_no_password
       = (''CLI'', zeroAuthConfig Global, None)"
  by (simp add: getApplicableAuthorizationDetails_def getApplicableAuthorizationDetails_v0_def
      GetGraphClient_cred_def Let_def
      config_cert_no_password_def config_none_def fromConfigOrEnv_def Getenv_def lib_ok_def
      hamiltonEnvironment_def graphCloudConfiguration_def)

lemma getTenantFromCLI_no_az:
  "getTenantFromCLI (host_unix []) [] =
     Inl az_not_found"
  by (simp add: getTenantFromCLI_def getTenantFromCLI_cmd_def Command_def LookPath_def joinDir_def
      host_unix_def Getenv_def SplitList_def Let_def az_not_found_def)

lemma GetNewSession_none_no_az:
  "GetNewSession lib_ok (host_unix []) [] config_none process0 =
     (Error az_not_found,
      process0)"
  by (simp add: GetNewSession_def getApplicableAuthorizationDetails_def Let_def
      config_none_def fromConfigOrEnv_def Getenv_def lib_ok_def
      hamiltonEnvironment_def Cache_Get_def process0_def getTenantFromCLI_no_az)

lemma GetNewSession_Error_cli:
  assumes "GetNewSession lib h env config p = (Error e, p1)"
  shows "fst (getApplicableAuthorizationDetails env config) = ''CLI''
         \<and> getTenantFromCLI h env = Inl e"
proof -
  obtain m ac er where g: "getApplicableAuthorizationDetails env config = (m, ac, er)"
    by (cases "getApplicableAuthorizationDetails env config") auto
  have "er = None" using getApplicable_err [of env config] g by simp
  with assms g show ?thesis
    by (auto simp add: GetNewSession_def Let_def new_ptr_def
        split: option.splits cached.splits sum.splits if_splits prod.splits)
qed

text \<open>
  Claim C4. The claim is that a tier with missing fields is skipped and resolution falls
  through to the next tier, ending with the CLI, without failing. With a tenant and a
  client id but no secret, no certificate and no managed identity, both revisions of the
  resolver return the method \<open>CLI\<close> and no error, but the configuration they return
  has no method enabled: the CLI token is enabled only in the branch of the empty tenant.
  Hamilton refuses that configuration, and \<open>GetNewSession\<close> ends in \<open>log.Fatal\<close>
  on every host, before the CLI is tried. With the tenant left out as well, the same
  resolver enables the CLI token.
\<close>

theorem partial_secret_tier_ends_in_fatal:
  "getApplicableAuthorizationDetails [] config_client_id_only
     = (''CLI'', zeroAuthConfig Global, None)
 \<and> getApplicableAuthorizationDetails_v0 [] config_client_id_only
     = (''CLI'', zeroAuthConfig Global, None)
 \<and> EnableAzureCliToken (zeroAuthConfig Global) = False
 \<and> EnableClientSecretAuth (zeroAuthConfig Global) = False
 \<and> EnableClientCertAuth (zeroAuthConfig Global) = False
 \<and> EnableMsiAuth (zeroAuthConfig Global) = False
 \<and> GetNewSession lib_hamilton h [] config_client_id_only process0
     = (Fatal ''no Authorizer could be configured, please check your configuration'', process0)
 \<and> GetNewSession_v0 lib_hamilton h [] config_client_id_only process0
     = (Fatal ''no Authorizer could be configured, please check your configuration'', process0)
 \<and> getApplicableAuthorizationDetails [] config_none
     = (''CLI'', (zeroAuthConfig Global)\<lparr> EnableAzureCliToken := True \<rparr>, None)"
proof -
  have r: "getApplicableAuthorizationDetails [] config_client_id_only
     = (''CLI'', zeroAuthConfig Global, None)"
    by (simp add: getApplicableAuthorizationDetails_def Let_def config_client_id_only_def
        config_none_def fromConfigOrEnv_def Getenv_def hamiltonEnvironment_def)
  have r0: "getApplicableAuthorizationDetails_v0 [] config_client_id_only
     = (''CLI'', zeroAuthConfig Global, None)"
    by (simp add: getApplicableAuthorizationDetails_v0_def Let_def config_client_id_only_def
        config_none_def fromConfigOrEnv_def Getenv_def hamiltonEnvironment_def)
  have n: "NewAuthorizer lib_hamilton (zeroAuthConfig Global)
     = Some ''no Authorizer could be configured, please check your configuration''"
    by (simp add: lib_hamilton_def zeroAuthConfig_def)
  have c: "Cache_Get process0 ''GetNewSession'' = None"
    by (simp add: Cache_Get_def process0_def)
  have g: "GetNewSession lib_hamilton h [] config_client_id_only process0
     = (Fatal ''no Authorizer could be configured, please check your configuration'', process0)"
    by (simp add: GetNewSession_def r n c)
  have g0: "GetNewSession_v0 lib_hamilton h [] config_client_id_only process0
     = (Fatal ''no Authorizer could be configured, please check your configuration'', process0)"
    by (simp add: GetNewSession_v0_def r0 n)
  have e: "getApplicableAuthorizationDetails [] config_none
     = (''CLI'', (zeroAuthConfig Global)\<lparr> EnableAzureCliToken := True \<rparr>, None)"
    by (simp add: getApplicableAuthorizationDetails_def Let_def
        config_none_def fromConfigOrEnv_def Getenv_def hamiltonEnvironment_def)
  have z: "EnableAzureCliToken (zeroAuthConfig Global) = False"
    "EnableClientSecretAuth (zeroAuthConfig Global) = False"
    "EnableClientCertAuth (zeroAuthConfig Global) = False"
    "EnableMsiAuth (zeroAuthConfig Global) = False"
    by (simp_all add: zeroAuthConfig_def)
  from r r0 z g g0 e show ?thesis by blast
qed

section \<open>Properties of the connection cache\<close>

lemma GetNewSession_hit:
  "Cache_Get p ''GetNewSession'' = Some (CachedSession s) \<Longrightarrow>
   GetNewSession lib h env config p = (Ok s, p)"
  by (simp add: GetNewSession_def)

lemma GetNewSession_Ok_stored:
  "GetNewSession lib h env config p = (Ok s, p1) \<Longrightarrow>
   Cache_Get p1 ''GetNewSession'' = Some (CachedSession s)"
  by (auto simp add: GetNewSession_def Cache_Get_def Cache_Set_def new_ptr_def Let_def
      split: option.splits cached.splits prod.splits sum.splits if_splits)

lemma GetNewSession_Error_same:
  "GetNewSession lib h env config p = (Error e, p1) \<Longrightarrow> p1 = p"
  by (auto simp add: GetNewSession_def Cache_Get_def Cache_Set_def new_ptr_def Let_def
      split: option.splits cached.splits prod.splits sum.splits if_splits)

lemma GetGraphClient_hit:
  "Cache_Get p ''GetGraphClient'' = Some (CachedClient c) \<Longrightarrow>
   GetGraphClient lib env config p = (Ok (c, None), p)"
  by (simp add: GetGraphClient_def)

lemma GetGraphClient_Ok_stored:
  "GetGraphClient lib env config p = (Ok (c, a), p1) \<Longrightarrow>
   Cache_Get p1 ''GetGraphClient'' = Some (CachedClient c)"
  by (auto simp add: GetGraphClient_def Cache_Get_def Cache_Set_def new_ptr_def Let_def
      split: option.splits cached.splits prod.splits sum.splits if_splits)

lemma GetGraphClient_Error_same:
  "GetGraphClient lib env config p = (Error e, p1) \<Longrightarrow> p1 = p"
  by (auto simp add: GetGraphClient_def Cache_Get_def Cache_Set_def new_ptr_def Let_def
      split: option.splits cached.splits prod.splits sum.splits if_splits)

lemma GetNewSession_v0_ignores_cache:
  "fst (GetNewSession_v0 lib h env config (p\<lparr> Cache := m \<rparr>)) = fst (GetNewSession_v0 lib h env config p)"
  by (auto simp add: GetNewSession_v0_def new_ptr_def Let_def
      split: option.splits prod.splits sum.splits)

lemma GetNewSession_secret:
  assumes "t \<noteq> []" and "Cache p ''GetNewSession'' = None"
  shows "GetNewSession lib_ok h [] (config_secret t) p =
     (Ok (next_addr p, session_of t),
      Cache_Set (p\<lparr> next_addr := Suc (next_addr p) \<rparr>) ''GetNewSession''
        (CachedSession (next_addr p, session_of t)))"
  using assms
  by (simp add: GetNewSession_def getApplicableAuthorizationDetails_def Let_def
      config_secret_def config_none_def fromConfigOrEnv_def Getenv_def lib_ok_def
      hamiltonEnvironment_def new_ptr_def Cache_Get_def session_of_def)

lemma GetNewSession_v0_secret:
  assumes "t \<noteq> []"
  shows "GetNewSession_v0 lib_ok h [] (config_secret t) p =
     (Ok (next_addr p, session_of t),
      Cache_Set (p\<lparr> next_addr := Suc (next_addr p) \<rparr>) ''authMethod''
        (CachedSession (next_addr p, session_of t)))"
  using assms
  by (simp add: GetNewSession_v0_def getApplicableAuthorizationDetails_v0_def Let_def
      config_secret_def config_none_def fromConfigOrEnv_def Getenv_def lib_ok_def
      hamiltonEnvironment_def new_ptr_def Cache_Get_def session_of_def)

lemma GetGraphClient_secret:
  assumes "t \<noteq> []" and "Cache p ''GetGraphClient'' = None"
  shows "GetGraphClient lib_ok [] (config_secret t) p =
     (Ok ((Suc (next_addr p), client_of t),
          Some (next_addr p, GraphRequestAdapter (AzureIdentityAuthenticationProvider
             (Some (ClientSecretCredential t ''app'' ''s3cret'' AzurePublic))))),
      Cache_Set (p\<lparr> next_addr := Suc (Suc (next_addr p)) \<rparr>) ''GetGraphClient''
        (CachedClient (Suc (next_addr p), client_of t)))"
  using assms
  by (simp add: GetGraphClient_def GetGraphClient_cred_def Let_def
      config_secret_def config_none_def fromConfigOrEnv_def Getenv_def lib_ok_def
      graphCloudConfiguration_def new_ptr_def Cache_Get_def client_of_def)

text \<open>
  Claim C1, as the code has it. For \<open>GetNewSession\<close> and \<open>GetGraphClient\<close> of
  \<open>azuread/service.go\<close>: once a call has returned successfully, every later call
  returns the same instance (for \<open>GetGraphClient\<close> the same client, with no adapter)
  and leaves the process as it is, whatever configuration, environment, host and
  libraries the later call is given; resolution does not run again. A call that returns
  an error stores nothing. The earlier revision of \<open>GetNewSession\<close>, whose lookup is
  commented out, is not covered: it resolves on every call.
\<close>

theorem cache_set_once:
  "(GetNewSession lib h env config p = (Ok s, p1) \<longrightarrow>
      (\<forall>lib' h' env' config'. GetNewSession lib' h' env' config' p1 = (Ok s, p1)))
 \<and> (GetGraphClient lib env config p = (Ok (c, a), p2) \<longrightarrow>
      (\<forall>lib' env' config'. GetGraphClient lib' env' config' p2 = (Ok (c, None), p2)))
 \<and> (GetNewSession lib h env config p = (Error e, p3) \<longrightarrow> p3 = p)
 \<and> (GetGraphClient lib env config p = (Error e, p4) \<longrightarrow> p4 = p)"
proof (intro conjI impI allI)
  fix lib' h' env' config'
  assume "GetNewSession lib h env config p = (Ok s, p1)"
  then have "Cache_Get p1 ''GetNewSession'' = Some (CachedSession s)"
    by (rule GetNewSession_Ok_stored)
  then show "GetNewSession lib' h' env' config' p1 = (Ok s, p1)"
    by (rule GetNewSession_hit)
next
  fix lib' env' config'
  assume "GetGraphClient lib env config p = (Ok (c, a), p2)"
  then have "Cache_Get p2 ''GetGraphClient'' = Some (CachedClient c)"
    by (rule GetGraphClient_Ok_stored)
  then show "GetGraphClient lib' env' config' p2 = (Ok (c, None), p2)"
    by (rule GetGraphClient_hit)
next
  assume "GetNewSession lib h env config p = (Error e, p3)"
  then show "p3 = p" by (rule GetNewSession_Error_same)
next
  assume "GetGraphClient lib env config p = (Error e, p4)"
  then show "p4 = p" by (rule GetGraphClient_Error_same)
qed

theorem cache_set_once_witness:
  "GetNewSession lib_ok (host_unix []) [] (config_secret ''contoso'') process0 =
     (Ok (0, session_of ''contoso''),
      Cache_Set (process0\<lparr> next_addr := 1 \<rparr>) ''GetNewSession''
        (CachedSession (0, session_of ''contoso'')))
   \<and> GetNewSession lib_ok (host_unix []) [] config_none
        (Cache_Set (process0\<lparr> next_addr := 1 \<rparr>) ''GetNewSession''
          (CachedSession (0, session_of ''contoso'')))
       = (Ok (0, session_of ''contoso''),
          Cache_Set (process0\<lparr> next_addr := 1 \<rparr>) ''GetNewSession''
            (CachedSession (0, session_of ''contoso'')))
   \<and> GetGraphClient lib_ok [] (config_secret ''contoso'') process0
       = (Ok ((1, client_of ''contoso''),
              Some (0, GraphRequestAdapter (AzureIdentityAuthenticationProvider
                (Some (ClientSecretCredential ''contoso'' ''app'' ''s3cret'' AzurePublic))))),
          Cache_Set (process0\<lparr> next_addr := 2 \<rparr>) ''GetGraphClient''
            (CachedClient (1, client_of ''contoso'')))
   \<and> GetGraphClient lib_ok [] (config_secret ''fabrikam'')
        (Cache_Set (process0\<lparr> next_addr := 2 \<rparr>) ''GetGraphClient''
            (CachedClient (1, client_of ''contoso'')))
       = (Ok ((1, client_of ''contoso''), None),
          Cache_Set (process0\<lparr> next_addr := 2 \<rparr>) ''GetGraphClient''
            (CachedClient (1, client_of ''contoso'')))
   \<and> GetNewSession lib_ok (host_unix []) [] config_none process0 =
     (Error az_not_found,
      process0)
   \<and> GetGraphClient (lib_ok\<lparr> NewAzureCLICredential := Some ''az not installed'' \<rparr>) []
        config_none process0 =
     (Error ''error creating credentials: az not installed'', process0)"
proof -
  let ?p1 = "Cache_Set (process0\<lparr> next_addr := 1 \<rparr>) ''GetNewSession''
        (CachedSession (0, session_of ''contoso''))"
  let ?p2 = "Cache_Set (process0\<lparr> next_addr := 2 \<rparr>) ''GetGraphClient''
            (CachedClient (1, client_of ''contoso''))"
  let ?a = "Some (0::nat, GraphRequestAdapter (AzureIdentityAuthenticationProvider
                (Some (ClientSecretCredential ''contoso'' ''app'' ''s3cret'' AzurePublic))))"
  have a: "GetNewSession lib_ok (host_unix []) [] (config_secret ''contoso'') process0 =
     (Ok (0, session_of ''contoso''), ?p1)"
    using GetNewSession_secret [of "''contoso''" process0 "host_unix []"]
    by (simp add: process0_def)
  have b: "GetGraphClient lib_ok [] (config_secret ''contoso'') process0 =
     (Ok ((1, client_of ''contoso''), ?a), ?p2)"
    using GetGraphClient_secret [of "''contoso''" process0]
    by (simp add: process0_def numeral_2_eq_2)
  have c: "GetNewSession lib_ok (host_unix []) [] config_none process0 =
     (Error az_not_found,
      process0)"
    by (rule GetNewSession_none_no_az)
  have d: "GetGraphClient (lib_ok\<lparr> NewAzureCLICredential := Some ''az not installed'' \<rparr>) []
        config_none process0 =
     (Error ''error creating credentials: az not installed'', process0)"
    by (simp add: GetGraphClient_def GetGraphClient_cred_def Let_def config_none_def
        fromConfigOrEnv_def Getenv_def lib_ok_def Cache_Get_def process0_def)
  have t1: "\<forall>lib' h' env' config'. GetNewSession lib' h' env' config' ?p1
              = (Ok (0, session_of ''contoso''), ?p1)"
    using cache_set_once [of lib_ok "host_unix []" "[]" "config_secret ''contoso''" process0
      "(0, session_of ''contoso'')" ?p1] a by blast
  have t2: "\<forall>lib' env' config'. GetGraphClient lib' env' config' ?p2
              = (Ok ((1, client_of ''contoso''), None), ?p2)"
    using cache_set_once [of lib_ok _ "[]" "config_secret ''contoso''" process0
      _ _ "(1, client_of ''contoso'')" ?a ?p2] b by blast
  from a b c d t1 t2 show ?thesis by blast
qed

text \<open>
  The claim as written fails in two ways. In the earlier revision of \<open>GetNewSession\<close>
  a first call succeeds and stores its session, and a second call with another
  configuration resolves again and returns a new session for the other tenant. In
  \<open>azuread/service.go\<close> a first call that fails stores nothing, and the second call
  resolves with the configuration it is given.
\<close>

theorem cache_set_once_counterexample:
  "fst (GetNewSession_v0 lib_ok (host_unix []) [] (config_secret ''contoso'') process0)
     = Ok (0, session_of ''contoso'')
   \<and> Cache (snd (GetNewSession_v0 lib_ok (host_unix []) [] (config_secret ''contoso'') process0))
        ''authMethod'' = Some (CachedSession (0, session_of ''contoso''))
   \<and> fst (GetNewSession_v0 lib_ok (host_unix []) [] (config_secret ''fabrikam'')
        (snd (GetNewSession_v0 lib_ok (host_unix []) [] (config_secret ''contoso'') process0)))
     = Ok (1, session_of ''fabrikam'')
   \<and> fst (GetNewSession lib_ok (host_unix []) [] config_none process0)
     = Error az_not_found
   \<and> fst (GetNewSession lib_ok (host_unix []) [] (config_secret ''contoso'')
        (snd (GetNewSession lib_ok (host_unix []) [] config_none process0)))
     = Ok (0, session_of ''contoso'')"
proof -
  have "Cache process0 ''GetNewSession'' = None" "next_addr process0 = 0"
    by (simp_all add: process0_def)
  then show ?thesis
    by (simp add: GetNewSession_v0_secret GetNewSession_secret GetNewSession_none_no_az
      Cache_Set_def)
qed

section \<open>Properties of paged retrieval\<close>

lemma visitor_calls: "calls (snd (visitor rr item st)) = calls st"
  by (simp add: visitor_def Let_def)

lemma emit_page_calls: "calls (snd (emit_page (visitor rr) items st)) = calls st"
proof (induction items arbitrary: st)
  case Nil
  then show ?case by simp
next
  case (Cons item items)
  obtain keep st' where v: "visitor rr item st = (keep, st')"
    by (cases "visitor rr item st") auto
  then have c: "calls st' = calls st"
    using visitor_calls [of rr item st] by simp
  show ?case
  proof (cases keep)
    case True
    with v c Cons.IH [of st'] show ?thesis by simp
  next
    case False
    with v c show ?thesis by simp
  qed
qed

lemma Iterate_calls_prefix:
  "prefix (calls st) (calls (snd (Iterate (visitor rr) page chain st)))"
proof (induction chain arbitrary: page st)
  case Nil
  then show ?case by (simp add: emit_page_calls)
next
  case (Cons nxt rest)
  obtain keep st' where e: "emit_page (visitor rr) page st = (keep, st')"
    by (cases "emit_page (visitor rr) page st") auto
  then have c: "calls st' = calls st"
    using emit_page_calls [of rr page st] by simp
  show ?case
  proof (cases keep)
    case False
    with e c show ?thesis by simp
  next
    case True
    show ?thesis
    proof (cases nxt)
      case (Inl err)
      with True e c show ?thesis by simp
    next
      case (Inr page')
      have "prefix (calls (st'\<lparr> calls := calls st' @ [Call_NextPage] \<rparr>))
              (calls (snd (Iterate (visitor rr) page' rest (st'\<lparr> calls := calls st' @ [Call_NextPage] \<rparr>))))"
        by (rule Cons.IH)
      then have "prefix (calls st)
              (calls (snd (Iterate (visitor rr) page' rest (st'\<lparr> calls := calls st' @ [Call_NextPage] \<rparr>))))"
        using c by (auto simp add: prefix_def)
      with True e Inr show ?thesis by simp
    qed
  qed
qed

lemma list_hit_calls:
  assumes hit: "Cache_Get p ''GetGraphClient'' = Some (CachedClient c)"
    and get: "DirectoryAudits_Get r c (directoryAudit_Filter (Format r) (map_order r) d)
                (directoryAudit_Top d) = Inr result"
  shows "prefix (calls st @ [Call_DirectoryAudits_Get
                     (directoryAudit_Filter (Format r) (map_order r) d) (directoryAudit_Top d),
                   Call_NewPageIterator None])
           (calls (snd (snd (listAdDirectoryAuditReports lib r env config d p st))))"
proof -
  let ?st2 = "st\<lparr> calls := calls st @ [Call_DirectoryAudits_Get
                     (directoryAudit_Filter (Format r) (map_order r) d) (directoryAudit_Top d)]
                     @ [Call_NewPageIterator None] \<rparr>"
  have g: "GetGraphClient lib env config p = (Ok (c, None), p)"
    using hit by (rule GetGraphClient_hit)
  show ?thesis
  proof (cases "NewPageIterator r result None")
    case (Some err)
    with g get show ?thesis
      by (simp add: listAdDirectoryAuditReports_def Let_def)
  next
    case None
    let ?later = "map (map_sum id CreateSignInCollectionResponseFromDiscriminatorValue)
                    (snd result)"
    obtain err st3 where it:
      "Iterate (visitor (RowsRemaining r)) (fst result) ?later ?st2 = (err, st3)"
      by (cases "Iterate (visitor (RowsRemaining r)) (fst result) ?later ?st2") auto
    have "prefix (calls ?st2)
            (calls (snd (Iterate (visitor (RowsRemaining r)) (fst result) ?later ?st2)))"
      by (rule Iterate_calls_prefix)
    with it have "prefix (calls ?st2) (calls st3)" by simp
    with None g get it show ?thesis
      by (cases err) (simp_all add: listAdDirectoryAuditReports_def Let_def)
  qed
qed

text \<open>
  Claim C10. A call of \<open>GetGraphClient\<close> that finds the client in the cache returns
  that client and a \<open>nil\<close> request adapter; this is every call after one that
  succeeded. \<open>listAdDirectoryAuditReports\<close> hands the adapter it received to
  \<open>NewPageIterator\<close>, so on such a call the constructor is called with \<open>nil\<close>.
\<close>

theorem cached_client_has_nil_adapter:
  "(Cache_Get p ''GetGraphClient'' = Some (CachedClient c)
      \<longrightarrow> GetGraphClient lib env config p = (Ok (c, None), p))
 \<and> (GetGraphClient lib env config p = (Ok (c, a), p1)
      \<longrightarrow> (\<forall>lib' env' config'. fst (GetGraphClient lib' env' config' p1) = Ok (c, None)))
 \<and> (Cache_Get p ''GetGraphClient'' = Some (CachedClient c)
      \<and> DirectoryAudits_Get r c (directoryAudit_Filter (Format r) (map_order r) d)
            (directoryAudit_Top d) = Inr result
      \<longrightarrow> prefix (calls st @ [Call_DirectoryAudits_Get
                     (directoryAudit_Filter (Format r) (map_order r) d) (directoryAudit_Top d),
                   Call_NewPageIterator None])
           (calls (snd (snd (listAdDirectoryAuditReports lib r env config d p st)))))"
proof (intro conjI impI allI)
  assume "Cache_Get p ''GetGraphClient'' = Some (CachedClient c)"
  then show "GetGraphClient lib env config p = (Ok (c, None), p)"
    by (rule GetGraphClient_hit)
next
  fix lib' env' config'
  assume "GetGraphClient lib env config p = (Ok (c, a), p1)"
  then have "Cache_Get p1 ''GetGraphClient'' = Some (CachedClient c)"
    by (rule GetGraphClient_Ok_stored)
  then show "fst (GetGraphClient lib' env' config' p1) = Ok (c, None)"
    by (simp add: GetGraphClient_hit)
next
  assume "Cache_Get p ''GetGraphClient'' = Some (CachedClient c)
      \<and> DirectoryAudits_Get r c (directoryAudit_Filter (Format r) (map_order r) d)
            (directoryAudit_Top d) = Inr result"
  then show "prefix (calls st @ [Call_DirectoryAudits_Get
                     (directoryAudit_Filter (Format r) (map_order r) d) (directoryAudit_Top d),
                   Call_NewPageIterator None])
           (calls (snd (snd (listAdDirectoryAuditReports lib r env config d p st))))"
    using list_hit_calls by blast
qed

theorem cached_client_has_nil_adapter_witness:
  "Cache_Get process_cached ''GetGraphClient'' = Some (CachedClient (1, client_of ''contoso''))
 \<and> GetGraphClient lib_ok [] (config_secret ''contoso'') process0
     = (Ok ((1, client_of ''contoso''),
            Some (0, GraphRequestAdapter (AzureIdentityAuthenticationProvider
              (Some (ClientSecretCredential ''contoso'' ''app'' ''s3cret'' AzurePublic))))),
        process_cached)
 \<and> GetGraphClient lib_ok [] (config_secret ''fabrikam'') process_cached
     = (Ok ((1, client_of ''contoso''), None), process_cached)
 \<and> DirectoryAudits_Get run_two_pages (1, client_of ''contoso'')
       (directoryAudit_Filter (Format run_two_pages) (map_order run_two_pages) query_none)
       (directoryAudit_Top query_none) = Inr (page1, [Inr [''b1'', ''b2'']])
 \<and> prefix [Call_DirectoryAudits_Get None 1000, Call_NewPageIterator None]
      (calls (snd (snd (listAdDirectoryAuditReports lib_ok run_two_pages []
                          (config_secret ''contoso'') query_none process_cached exec0))))"
proof -
  let ?c = "(1::nat, client_of ''contoso'')"
  let ?a = "Some (0::nat, GraphRequestAdapter (AzureIdentityAuthenticationProvider
              (Some (ClientSecretCredential ''contoso'' ''app'' ''s3cret'' AzurePublic))))"
  have hit: "Cache_Get process_cached ''GetGraphClient'' = Some (CachedClient ?c)"
    by (simp add: process_cached_def Cache_Get_def Cache_Set_def)
  have first: "GetGraphClient lib_ok [] (config_secret ''contoso'') process0
     = (Ok (?c, ?a), process_cached)"
    using GetGraphClient_secret [of "''contoso''" process0]
    by (simp add: process0_def process_cached_def numeral_2_eq_2)
  have f: "directoryAudit_Filter (Format run_two_pages) (map_order run_two_pages) query_none = None"
    by (simp add: directoryAudit_Filter_def directoryAudit_clauses_def run_two_pages_def
        query_none_def filterQuals_def)
  have t: "directoryAudit_Top query_none = 1000"
    by (simp add: directoryAudit_Top_def query_none_def)
  have get: "DirectoryAudits_Get run_two_pages ?c
       (directoryAudit_Filter (Format run_two_pages) (map_order run_two_pages) query_none)
       (directoryAudit_Top query_none) = Inr (page1, [Inr [''b1'', ''b2'']])"
    by (simp add: run_two_pages_def)
  note inst = cached_client_has_nil_adapter
    [of process_cached ?c lib_ok "[]" "config_secret ''fabrikam''" ?a process_cached
        run_two_pages query_none "(page1, [Inr [''b1'', ''b2'']])" exec0]
  have second: "GetGraphClient lib_ok [] (config_secret ''fabrikam'') process_cached
     = (Ok (?c, None), process_cached)"
    using inst hit by blast
  have "prefix (calls exec0 @ [Call_DirectoryAudits_Get
                     (directoryAudit_Filter (Format run_two_pages) (map_order run_two_pages) query_none)
                     (directoryAudit_Top query_none),
                   Call_NewPageIterator None])
           (calls (snd (snd (listAdDirectoryAuditReports lib_ok run_two_pages []
                               (config_secret ''fabrikam'') query_none process_cached exec0))))"
    using inst hit get by blast
  then have "prefix [Call_DirectoryAudits_Get None 1000, Call_NewPageIterator None]
           (calls (snd (snd (listAdDirectoryAuditReports lib_ok run_two_pages []
                               (config_secret ''fabrikam'') query_none process_cached exec0))))"
    by (simp add: f t exec0_def)
  moreover have same: "listAdDirectoryAuditReports lib_ok run_two_pages []
                               (config_secret ''fabrikam'') query_none process_cached exec0
      = listAdDirectoryAuditReports lib_ok run_two_pages []
                               (config_secret ''contoso'') query_none process_cached exec0"
    by (simp add: listAdDirectoryAuditReports_def GetGraphClient_hit [OF hit])
  ultimately have calls: "prefix [Call_DirectoryAudits_Get None 1000, Call_NewPageIterator None]
           (calls (snd (snd (listAdDirectoryAuditReports lib_ok run_two_pages []
                               (config_secret ''contoso'') query_none process_cached exec0))))"
    by simp
  from hit first second get calls show ?thesis by blast
qed

lemma visitor_eq:
  "visitor rr item st =
     (rr (Suc (checks st)) \<noteq> 0,
      st\<lparr> streamed := streamed st @ filter isDirectoryAuditable [item],
          checks := Suc (checks st) \<rparr>)"
  by (simp add: visitor_def Let_def)

lemma emit_page_stop:
  assumes "1 \<le> n" and "n \<le> length page"
    and "\<forall>k. 1 \<le> k \<and> k < n \<longrightarrow> rr (checks st + k) \<noteq> 0"
    and "rr (checks st + n) = 0"
  shows "emit_page (visitor rr) page st =
           (False, st\<lparr> streamed := streamed st @ filter isDirectoryAuditable (take n page),
                       checks := checks st + n \<rparr>)"
  using assms
proof (induction page arbitrary: st n)
  case Nil
  then show ?case by simp
next
  case (Cons item items)
  let ?st1 = "st\<lparr> streamed := streamed st @ filter isDirectoryAuditable [item],
                  checks := Suc (checks st) \<rparr>"
  show ?case
  proof (cases "n = 1")
    case True
    with Cons.prems have "visitor rr item st = (False, ?st1)"
      by (simp add: visitor_def Let_def)
    then have "emit_page (visitor rr) (item # items) st = (False, ?st1)"
      by simp
    with True show ?thesis by simp
  next
    case False
    with Cons.prems obtain m where m: "n = Suc m" "1 \<le> m" "m \<le> length items"
      by (cases n) auto
    have nz: "rr (Suc (checks st)) \<noteq> 0"
      using Cons.prems(3) m by (metis One_nat_def Suc_eq_plus1 le_refl lessI less_Suc_eq_le le_imp_less_Suc)
    have a: "\<forall>k. 1 \<le> k \<and> k < m \<longrightarrow> rr (checks ?st1 + k) \<noteq> 0"
    proof (intro allI impI)
      fix k assume "1 \<le> k \<and> k < m"
      then have "1 \<le> Suc k \<and> Suc k < n" using m by simp
      then have "rr (checks st + Suc k) \<noteq> 0" using Cons.prems(3) by blast
      then show "rr (checks ?st1 + k) \<noteq> 0" by simp
    qed
    have b: "rr (checks ?st1 + m) = 0" using Cons.prems(4) m by simp
    have ih: "emit_page (visitor rr) items ?st1 =
           (False, ?st1\<lparr> streamed := streamed ?st1 @ filter isDirectoryAuditable (take m items),
                       checks := checks ?st1 + m \<rparr>)"
      using Cons.IH [OF m(2) m(3) a b] .
    have "visitor rr item st = (True, ?st1)"
      using nz by (simp add: visitor_def Let_def)
    then have "emit_page (visitor rr) (item # items) st = emit_page (visitor rr) items ?st1"
      by simp
    with ih m show ?thesis by simp
  qed
qed

lemma emit_page_all:
  assumes "\<forall>k. 1 \<le> k \<and> k \<le> length page \<longrightarrow> rr (checks st + k) \<noteq> 0"
  shows "emit_page (visitor rr) page st =
           (True, st\<lparr> streamed := streamed st @ filter isDirectoryAuditable page,
                      checks := checks st + length page \<rparr>)"
  using assms
proof (induction page arbitrary: st)
  case Nil
  then show ?case by simp
next
  case (Cons item items)
  let ?st1 = "st\<lparr> streamed := streamed st @ filter isDirectoryAuditable [item],
                  checks := Suc (checks st) \<rparr>"
  have nz: "rr (Suc (checks st)) \<noteq> 0"
    using Cons.prems by (metis One_nat_def Suc_eq_plus1 le_refl length_Cons le_add1 plus_1_eq_Suc)
  have a: "\<forall>k. 1 \<le> k \<and> k \<le> length items \<longrightarrow> rr (checks ?st1 + k) \<noteq> 0"
  proof (intro allI impI)
    fix k assume "1 \<le> k \<and> k \<le> length items"
    then have "1 \<le> Suc k \<and> Suc k \<le> length (item # items)" by simp
    then have "rr (checks st + Suc k) \<noteq> 0" using Cons.prems by blast
    then show "rr (checks ?st1 + k) \<noteq> 0" by simp
  qed
  have ih: "emit_page (visitor rr) items ?st1 =
           (True, ?st1\<lparr> streamed := streamed ?st1 @ filter isDirectoryAuditable items,
                      checks := checks ?st1 + length items \<rparr>)"
    using Cons.IH [OF a] .
  have "visitor rr item st = (True, ?st1)"
    using nz by (simp add: visitor_def Let_def)
  then have "emit_page (visitor rr) (item # items) st = emit_page (visitor rr) items ?st1"
    by simp
  with ih show ?case by simp
qed

lemma Iterate_stop:
  assumes "emit_page cb page st = (False, st')"
  shows "Iterate cb page chain st = (None, st')"
  using assms by (cases chain) simp_all

text \<open>
  Claim C7. Each invocation of the visitor streams the item (when it is a directory
  audit) and then asks once for the rows remaining. When the budget is zero for the first
  time after the \<open>n\<close>-th item of the first page, the iteration ends there: exactly
  the first \<open>n\<close> items have been visited, and no further page is requested, whatever
  pages follow. With \<open>n = 3\<close> and a second page this is the scenario of the claim.
  While the budget lasts through a page, the next page is fetched and emitted in turn.
\<close>

theorem iterator_stops_on_budget:
  "visitor rr item st =
     (rr (Suc (checks st)) \<noteq> 0,
      st\<lparr> streamed := streamed st @ filter isDirectoryAuditable [item],
          checks := Suc (checks st) \<rparr>)
 \<and> (1 \<le> n \<and> n \<le> length page
      \<and> (\<forall>k. 1 \<le> k \<and> k < n \<longrightarrow> rr (checks st + k) \<noteq> 0)
      \<and> rr (checks st + n) = 0
     \<longrightarrow> Iterate (visitor rr) page chain st =
           (None, st\<lparr> streamed := streamed st @ filter isDirectoryAuditable (take n page),
                      checks := checks st + n \<rparr>))
 \<and> ((\<forall>k. 1 \<le> k \<and> k \<le> length page \<longrightarrow> rr (checks st + k) \<noteq> 0)
     \<longrightarrow> Iterate (visitor rr) page (Inr page' # rest) st =
           Iterate (visitor rr) page' rest
             (st\<lparr> streamed := streamed st @ filter isDirectoryAuditable page,
                  checks := checks st + length page,
                  calls := calls st @ [Call_NextPage] \<rparr>))"
proof (intro conjI impI)
  show "visitor rr item st =
     (rr (Suc (checks st)) \<noteq> 0,
      st\<lparr> streamed := streamed st @ filter isDirectoryAuditable [item],
          checks := Suc (checks st) \<rparr>)"
    by (rule visitor_eq)
next
  assume "1 \<le> n \<and> n \<le> length page
      \<and> (\<forall>k. 1 \<le> k \<and> k < n \<longrightarrow> rr (checks st + k) \<noteq> 0)
      \<and> rr (checks st + n) = 0"
  then have "emit_page (visitor rr) page st =
           (False, st\<lparr> streamed := streamed st @ filter isDirectoryAuditable (take n page),
                       checks := checks st + n \<rparr>)"
    using emit_page_stop by blast
  then show "Iterate (visitor rr) page chain st =
           (None, st\<lparr> streamed := streamed st @ filter isDirectoryAuditable (take n page),
                      checks := checks st + n \<rparr>)"
    by (rule Iterate_stop)
next
  assume "\<forall>k. 1 \<le> k \<and> k \<le> length page \<longrightarrow> rr (checks st + k) \<noteq> 0"
  then have "emit_page (visitor rr) page st =
           (True, st\<lparr> streamed := streamed st @ filter isDirectoryAuditable page,
                      checks := checks st + length page \<rparr>)"
    by (rule emit_page_all)
  then show "Iterate (visitor rr) page (Inr page' # rest) st =
           Iterate (visitor rr) page' rest
             (st\<lparr> streamed := streamed st @ filter isDirectoryAuditable page,
                  checks := checks st + length page,
                  calls := calls st @ [Call_NextPage] \<rparr>)"
    by simp
qed

theorem iterator_stops_on_budget_witness:
  "(1::nat) \<le> 3 \<and> 3 \<le> length page1
   \<and> (3 - Suc 0 :: nat) \<noteq> 0 \<and> (3 - Suc (Suc 0) :: nat) \<noteq> 0 \<and> (3 - 3 :: nat) = 0
   \<and> Iterate (visitor (\<lambda>k. 3 - k)) page1 [Inr page2] exec0 =
       (None, \<lparr> streamed = [DirectoryAudit ''a1'', DirectoryAudit ''a2'', DirectoryAudit ''a3''],
                checks = 3, calls = [] \<rparr>)
   \<and> Iterate (visitor (\<lambda>k. 7 - k)) page1 [Inr page2] exec0 =
       (None, \<lparr> streamed = page1, checks = 6, calls = [Call_NextPage] \<rparr>)"
proof -
  have h: "(1::nat) \<le> 3 \<and> 3 \<le> length page1
      \<and> (\<forall>k. 1 \<le> k \<and> k < 3 \<longrightarrow> (\<lambda>k. 3 - k) (checks exec0 + k) \<noteq> (0::nat))
      \<and> (\<lambda>k. 3 - k) (checks exec0 + 3) = (0::nat)"
    by (auto simp add: page1_def exec0_def)
  have "Iterate (visitor (\<lambda>k. 3 - k)) page1 [Inr page2] exec0 =
          (None, exec0\<lparr> streamed := streamed exec0 @ filter isDirectoryAuditable (take 3 page1),
                        checks := checks exec0 + 3 \<rparr>)"
    using iterator_stops_on_budget
      [of "\<lambda>k. 3 - k" "DirectoryAudit ''a1''" exec0 3 page1 "[Inr page2]" page2 "[]"] h
    by blast
  then have a: "Iterate (visitor (\<lambda>k. 3 - k)) page1 [Inr page2] exec0 =
       (None, \<lparr> streamed = [DirectoryAudit ''a1'', DirectoryAudit ''a2'', DirectoryAudit ''a3''],
                checks = 3, calls = [] \<rparr>)"
    by (simp add: page1_def exec0_def)
  have g: "\<forall>k. 1 \<le> k \<and> k \<le> length page1 \<longrightarrow> (\<lambda>k. 7 - k) (checks exec0 + k) \<noteq> (0::nat)"
    by (auto simp add: page1_def exec0_def)
  have "Iterate (visitor (\<lambda>k. 7 - k)) page1 (Inr page2 # []) exec0 =
          Iterate (visitor (\<lambda>k. 7 - k)) page2 []
            (exec0\<lparr> streamed := streamed exec0 @ filter isDirectoryAuditable page1,
                    checks := checks exec0 + length page1,
                    calls := calls exec0 @ [Call_NextPage] \<rparr>)"
    using iterator_stops_on_budget
      [of "\<lambda>k. 7 - k" "DirectoryAudit ''a1''" exec0 3 page1 "[Inr page2]" page2 "[]"] g
    by blast
  also have "\<dots> = (None, \<lparr> streamed = page1, checks = 6, calls = [Call_NextPage] \<rparr>)"
    by (simp add: page1_def page2_def exec0_def visitor_def Let_def
        CreateSignInCollectionResponseFromDiscriminatorValue_def)
  finally have b: "Iterate (visitor (\<lambda>k. 7 - k)) page1 [Inr page2] exec0 =
       (None, \<lparr> streamed = page1, checks = 6, calls = [Call_NextPage] \<rparr>)" .
  from a b show ?thesis by (simp add: page1_def)
qed

section \<open>Properties of the query filter\<close>

lemma build_concat:
  "buildDirectoryAuditQueryFilter order eq =
     concat (map (\<lambda>qual. case eq qual of
                     Some v \<Rightarrow> [ToCamel qual @ '' eq '' @ [CHR 0x27] @ GetStringValue v @ [CHR 0x27]]
                   | None \<Rightarrow> []) order)"
  by (induction order) (simp_all split: option.splits)

lemma mset_concat_image:
  "mset (concat (map f zs)) = sum_mset (image_mset (\<lambda>z. mset (f z)) (mset zs))"
  by (induction zs) simp_all

lemma mset_concat_map:
  assumes "mset xs = mset ys"
  shows "mset (concat (map f xs)) = mset (concat (map f ys))"
  by (simp only: mset_concat_image assms)

lemma range_order_mset:
  assumes "range_order o1" and "range_order o2"
  shows "mset o1 = mset o2"
proof -
  have "distinct o1" "distinct o2" "set o1 = set o2"
    using assms by (simp_all add: range_order_def)
  then show ?thesis by (simp only: set_eq_iff_mset_eq_distinct)
qed

lemma build_mset:
  assumes "range_order o1" and "range_order o2"
  shows "mset (buildDirectoryAuditQueryFilter o1 eq) = mset (buildDirectoryAuditQueryFilter o2 eq)"
  unfolding build_concat
  by (rule mset_concat_map) (rule range_order_mset [OF assms])


lemma build_filter:
  "buildDirectoryAuditQueryFilter order eq =
     map (\<lambda>qual. ToCamel qual @ '' eq '' @ [CHR 0x27] @ GetStringValue (the (eq qual)) @ [CHR 0x27])
       (filter (\<lambda>qual. eq qual \<noteq> None) order)"
  by (induction order) (simp_all split: option.splits)

lemma all_equal_distinct:
  assumes "distinct xs" and "\<forall>a\<in>set xs. \<forall>b\<in>set xs. a = b"
  shows "xs = [] \<or> (\<exists>a. xs = [a])"
proof (cases xs)
  case Nil
  then show ?thesis by simp
next
  case (Cons a xs')
  have "xs' = []"
  proof (cases xs')
    case Nil
    then show ?thesis .
  next
    case (Cons b zs)
    with \<open>xs = a # xs'\<close> have xs: "xs = a # b # zs" by simp
    then have "a \<in> set xs" and "b \<in> set xs" by simp_all
    with assms(2) have "a = b" by blast
    with xs have "\<not> distinct xs" by simp
    with assms(1) show ?thesis by simp
  qed
  with Cons show ?thesis by simp
qed

lemma singleton_lists_eq:
  assumes "distinct xs" and "distinct ys" and "set xs = set ys"
    and "\<forall>a\<in>set xs. \<forall>b\<in>set xs. a = b"
  shows "xs = ys"
proof -
  have x: "xs = [] \<or> (\<exists>a. xs = [a])"
    using assms(1,4) by (rule all_equal_distinct)
  have y: "ys = [] \<or> (\<exists>a. ys = [a])"
    using assms(2) assms(4) [unfolded assms(3)] by (rule all_equal_distinct)
  from x y assms(3) show ?thesis by auto
qed


lemma build_at_most_one:
  assumes "range_order o1" and "range_order o2"
    and one: "\<forall>q\<in>set filterQuals. \<forall>q'\<in>set filterQuals. eq q \<noteq> None \<and> eq q' \<noteq> None \<longrightarrow> q = q'"
  shows "buildDirectoryAuditQueryFilter o1 eq = buildDirectoryAuditQueryFilter o2 eq"
proof -
  have s1: "set o1 = set filterQuals" and s2: "set o2 = set filterQuals"
    and d1: "distinct o1" and d2: "distinct o2"
    using assms(1,2) by (simp_all add: range_order_def)
  have "filter (\<lambda>qual. eq qual \<noteq> None) o1 = filter (\<lambda>qual. eq qual \<noteq> None) o2"
  proof (rule singleton_lists_eq)
    show "distinct (filter (\<lambda>qual. eq qual \<noteq> None) o1)"
      using d1 by simp
    show "distinct (filter (\<lambda>qual. eq qual \<noteq> None) o2)"
      using d2 by simp
    show "set (filter (\<lambda>qual. eq qual \<noteq> None) o1) = set (filter (\<lambda>qual. eq qual \<noteq> None) o2)"
      using s1 s2 by simp
    show "\<forall>a\<in>set (filter (\<lambda>qual. eq qual \<noteq> None) o1).
            \<forall>b\<in>set (filter (\<lambda>qual. eq qual \<noteq> None) o1). a = b"
      using s1 one by simp
  qed
  then show ?thesis by (simp only: build_filter)
qed

lemma ToCamel_names:
  "ToCamel ''activity_display_name'' = ''ActivityDisplayName''"
  "ToCamel ''category'' = ''Category''"
  "ToCamel ''correlation_id'' = ''CorrelationId''"
  "ToCamel ''result'' = ''Result''"
  by (simp_all add: ToCamel_def toUpper_def lowerLetters_def upperLetters_def)

lemma range_order_fwd: "range_order filterQuals"
  by (simp add: range_order_def filterQuals_def)

lemma range_order_rev: "range_order (rev filterQuals)"
  using range_order_fwd by (simp add: range_order_def)

lemma filter_fwd:
  "directoryAudit_Filter (\<lambda>_. []) filterQuals query_two =
     Some (''Category eq '' @ [CHR 0x27] @ ''UserManagement'' @ [CHR 0x27] @ '' and ''
           @ ''Result eq '' @ [CHR 0x27] @ ''success'' @ [CHR 0x27])"
  by (simp add: directoryAudit_Filter_def directoryAudit_clauses_def Let_def filterQuals_def
      query_two_def ToCamel_names GetStringValue_def)

lemma filter_rev:
  "directoryAudit_Filter (\<lambda>_. []) (rev filterQuals) query_two =
     Some (''Result eq '' @ [CHR 0x27] @ ''success'' @ [CHR 0x27] @ '' and ''
           @ ''Category eq '' @ [CHR 0x27] @ ''UserManagement'' @ [CHR 0x27])"
  by (simp add: directoryAudit_Filter_def directoryAudit_clauses_def Let_def filterQuals_def
      query_two_def ToCamel_names GetStringValue_def)

text \<open>
  Claim C5, as the code has it. The clauses of the filter are the equality clauses, one
  for each of the four columns that has an equality qual, in the order in which the
  \<open>range\<close> statement visits the map of filter columns, followed by the clauses of the
  quals on \<open>activity_date_time\<close> in the order the quals were given; unless a
  \<open>filter\<close> qual replaces it, the filter is these clauses joined by \<open>and\<close>, and
  none when there is no clause. Go does not fix the order of the visit: any two visits
  give the same clauses, each the same number of times; the filter string is the same in
  every run when at most one of the four columns has an equality qual, and when a
  \<open>filter\<close> qual is given. With two or more equality quals the order of the clauses
  can differ from run to run.
\<close>

theorem filter_order_follows_map_range:
  assumes "range_order o1" and "range_order o2"
  shows "directoryAudit_clauses F o1 d =
           concat (map (\<lambda>qual. case EqualsQuals d qual of
                           Some v \<Rightarrow> [ToCamel qual @ '' eq '' @ [CHR 0x27] @ GetStringValue v
                                       @ [CHR 0x27]]
                         | None \<Rightarrow> []) o1)
           @ concat (map (activityDateTime_clause F)
                       (case Quals d ''activity_date_time'' of Some qs \<Rightarrow> qs | None \<Rightarrow> []))
   \<and> ((case EqualsQuals d ''filter'' of Some v \<Rightarrow> GetStringValue v | None \<Rightarrow> []) = []
       \<longrightarrow> directoryAudit_Filter F o1 d =
             (if directoryAudit_clauses F o1 d = [] then None
              else Some (Join (directoryAudit_clauses F o1 d) '' and '')))
   \<and> Join [] sep = [] \<and> Join [x] sep = x
   \<and> Join (x # y # ys) sep = x @ sep @ Join (y # ys) sep
   \<and> filterQuals = [''activity_display_name'', ''category'', ''correlation_id'', ''result'']
   \<and> map ToCamel filterQuals
       = [''ActivityDisplayName'', ''Category'', ''CorrelationId'', ''Result'']
   \<and> GetStringValue (StringValue s) = s
   \<and> mset (directoryAudit_clauses F o1 d) = mset (directoryAudit_clauses F o2 d)
   \<and> ((\<forall>q\<in>set filterQuals. \<forall>q'\<in>set filterQuals.
          EqualsQuals d q \<noteq> None \<and> EqualsQuals d q' \<noteq> None \<longrightarrow> q = q')
       \<longrightarrow> directoryAudit_Filter F o1 d = directoryAudit_Filter F o2 d)
   \<and> (\<forall>v. EqualsQuals d ''filter'' = Some v \<and> GetStringValue v \<noteq> []
       \<longrightarrow> directoryAudit_Filter F o1 d = Some (GetStringValue v)
         \<and> directoryAudit_Filter F o2 d = Some (GetStringValue v))"
proof -
  have c1: "directoryAudit_clauses F o1 d =
           concat (map (\<lambda>qual. case EqualsQuals d qual of
                           Some v \<Rightarrow> [ToCamel qual @ '' eq '' @ [CHR 0x27] @ GetStringValue v
                                       @ [CHR 0x27]]
                         | None \<Rightarrow> []) o1)
           @ concat (map (activityDateTime_clause F)
                       (case Quals d ''activity_date_time'' of Some qs \<Rightarrow> qs | None \<Rightarrow> []))"
    by (cases "Quals d ''activity_date_time''")
       (simp_all add: directoryAudit_clauses_def build_concat)
  have c2: "(case EqualsQuals d ''filter'' of Some v \<Rightarrow> GetStringValue v | None \<Rightarrow> []) = []
       \<longrightarrow> directoryAudit_Filter F o1 d =
             (if directoryAudit_clauses F o1 d = [] then None
              else Some (Join (directoryAudit_clauses F o1 d) '' and ''))"
    by (simp add: directoryAudit_Filter_def Let_def)
  have c3: "Join [] sep = []" "Join [x] sep = x"
    "Join (x # y # ys) sep = x @ sep @ Join (y # ys) sep"
    by simp_all
  have c4: "filterQuals = [''activity_display_name'', ''category'', ''correlation_id'', ''result'']"
    by (simp add: filterQuals_def)
  have c5: "map ToCamel filterQuals
       = [''ActivityDisplayName'', ''Category'', ''CorrelationId'', ''Result'']"
    by (simp add: filterQuals_def ToCamel_names)
  have c6: "GetStringValue (StringValue s) = s"
    by (simp add: GetStringValue_def)
  have c7: "mset (directoryAudit_clauses F o1 d) = mset (directoryAudit_clauses F o2 d)"
    using build_mset [OF assms] by (simp add: directoryAudit_clauses_def)
  have c8: "(\<forall>q\<in>set filterQuals. \<forall>q'\<in>set filterQuals.
          EqualsQuals d q \<noteq> None \<and> EqualsQuals d q' \<noteq> None \<longrightarrow> q = q')
       \<longrightarrow> directoryAudit_Filter F o1 d = directoryAudit_Filter F o2 d"
  proof
    assume "\<forall>q\<in>set filterQuals. \<forall>q'\<in>set filterQuals.
          EqualsQuals d q \<noteq> None \<and> EqualsQuals d q' \<noteq> None \<longrightarrow> q = q'"
    then have "buildDirectoryAuditQueryFilter o1 (EqualsQuals d)
             = buildDirectoryAuditQueryFilter o2 (EqualsQuals d)"
      by (rule build_at_most_one [OF assms])
    then show "directoryAudit_Filter F o1 d = directoryAudit_Filter F o2 d"
      by (simp add: directoryAudit_Filter_def directoryAudit_clauses_def)
  qed
  have c9: "\<forall>v. EqualsQuals d ''filter'' = Some v \<and> GetStringValue v \<noteq> []
       \<longrightarrow> directoryAudit_Filter F o1 d = Some (GetStringValue v)
         \<and> directoryAudit_Filter F o2 d = Some (GetStringValue v)"
    by (simp add: directoryAudit_Filter_def Let_def)
  show ?thesis
    by (intro conjI) (rule c1 c2 c3 c4 c5 c6 c7 c8 c9)+
qed

theorem filter_order_follows_map_range_witness:
  "range_order filterQuals \<and> range_order (rev filterQuals)
   \<and> mset (directoryAudit_clauses (\<lambda>_. []) filterQuals query_two)
       = mset (directoryAudit_clauses (\<lambda>_. []) (rev filterQuals) query_two)
   \<and> directoryAudit_Filter (\<lambda>_. []) filterQuals
        (query_two\<lparr> EqualsQuals := [''category'' \<mapsto> StringValue ''UserManagement''] \<rparr>)
       = directoryAudit_Filter (\<lambda>_. []) (rev filterQuals)
        (query_two\<lparr> EqualsQuals := [''category'' \<mapsto> StringValue ''UserManagement''] \<rparr>)
   \<and> directoryAudit_Filter (\<lambda>_. []) (rev filterQuals)
        (query_two\<lparr> EqualsQuals := [''category'' \<mapsto> StringValue ''UserManagement'',
                                    ''filter'' \<mapsto> StringValue ''result eq success''] \<rparr>)
       = Some ''result eq success''
   \<and> directoryAudit_clauses (\<lambda>_. ''T'') (rev filterQuals) query_time
       = [''Result eq '' @ [CHR 0x27] @ ''success'' @ [CHR 0x27],
          ''Category eq '' @ [CHR 0x27] @ ''UserManagement'' @ [CHR 0x27],
          ''activityDateTime ge T'', ''activityDateTime le T'']
   \<and> directoryAudit_Filter (\<lambda>_. ''T'') (rev filterQuals) query_time
       = Some (''Result eq '' @ [CHR 0x27] @ ''success'' @ [CHR 0x27] @ '' and ''
               @ ''Category eq '' @ [CHR 0x27] @ ''UserManagement'' @ [CHR 0x27] @ '' and ''
               @ ''activityDateTime ge T'' @ '' and '' @ ''activityDateTime le T'')"
proof -
  let ?d1 = "query_two\<lparr> EqualsQuals := [''category'' \<mapsto> StringValue ''UserManagement''] \<rparr>"
  let ?d2 = "query_two\<lparr> EqualsQuals := [''category'' \<mapsto> StringValue ''UserManagement'',
                                    ''filter'' \<mapsto> StringValue ''result eq success''] \<rparr>"
  note inst = filter_order_follows_map_range [OF range_order_fwd range_order_rev]
  note inst_rev = filter_order_follows_map_range [OF range_order_rev range_order_fwd]
  have one: "\<forall>q\<in>set filterQuals. \<forall>q'\<in>set filterQuals.
          EqualsQuals ?d1 q \<noteq> None \<and> EqualsQuals ?d1 q' \<noteq> None \<longrightarrow> q = q'"
    by (simp add: filterQuals_def)
  have two: "EqualsQuals ?d2 ''filter'' = Some (StringValue ''result eq success'')
       \<and> GetStringValue (StringValue ''result eq success'') \<noteq> []"
    by (simp add: GetStringValue_def)
  have a: "mset (directoryAudit_clauses (\<lambda>_. []) filterQuals query_two)
       = mset (directoryAudit_clauses (\<lambda>_. []) (rev filterQuals) query_two)"
    using inst by blast
  have b: "directoryAudit_Filter (\<lambda>_. []) filterQuals ?d1
       = directoryAudit_Filter (\<lambda>_. []) (rev filterQuals) ?d1"
    using inst [where d = ?d1] one by blast
  have c: "directoryAudit_Filter (\<lambda>_. []) (rev filterQuals) ?d2 = Some ''result eq success''"
    using inst [where d = ?d2] two by (simp add: GetStringValue_def)
  have "directoryAudit_clauses (\<lambda>_. ''T'') (rev filterQuals) query_time =
           concat (map (\<lambda>qual. case EqualsQuals query_time qual of
                           Some v \<Rightarrow> [ToCamel qual @ '' eq '' @ [CHR 0x27] @ GetStringValue v
                                       @ [CHR 0x27]]
                         | None \<Rightarrow> []) (rev filterQuals))
           @ concat (map (activityDateTime_clause (\<lambda>_. ''T''))
                       (case Quals query_time ''activity_date_time'' of
                          Some qs \<Rightarrow> qs | None \<Rightarrow> []))"
    using inst_rev [where d = query_time and F = "\<lambda>_. ''T''"] by blast
  then have e: "directoryAudit_clauses (\<lambda>_. ''T'') (rev filterQuals) query_time
       = [''Result eq '' @ [CHR 0x27] @ ''success'' @ [CHR 0x27],
          ''Category eq '' @ [CHR 0x27] @ ''UserManagement'' @ [CHR 0x27],
          ''activityDateTime ge T'', ''activityDateTime le T'']"
    by (simp add: query_time_def filterQuals_def ToCamel_names GetStringValue_def
        activityDateTime_clause_def)
  have nf: "(case EqualsQuals query_time ''filter'' of Some v \<Rightarrow> GetStringValue v | None \<Rightarrow> []) = []"
    by (simp add: query_time_def)
  have "directoryAudit_Filter (\<lambda>_. ''T'') (rev filterQuals) query_time =
             (if directoryAudit_clauses (\<lambda>_. ''T'') (rev filterQuals) query_time = [] then None
              else Some (Join (directoryAudit_clauses (\<lambda>_. ''T'') (rev filterQuals) query_time)
                           '' and ''))"
    using inst_rev [where d = query_time and F = "\<lambda>_. ''T''"] nf by blast
  then have f: "directoryAudit_Filter (\<lambda>_. ''T'') (rev filterQuals) query_time
       = Some (''Result eq '' @ [CHR 0x27] @ ''success'' @ [CHR 0x27] @ '' and ''
               @ ''Category eq '' @ [CHR 0x27] @ ''UserManagement'' @ [CHR 0x27] @ '' and ''
               @ ''activityDateTime ge T'' @ '' and '' @ ''activityDateTime le T'')"
    by (simp add: e)
  from a b c e f range_order_fwd range_order_rev show ?thesis by blast
qed

text \<open>
  The claim as written fails: for the quals \<open>category = 'UserManagement'\<close> and
  \<open>result = 'success'\<close>, two visiting orders of the map give two different filter
  strings.
\<close>

theorem filter_not_deterministic_counterexample:
  "range_order filterQuals \<and> range_order (rev filterQuals)
   \<and> directoryAudit_Filter (\<lambda>_. []) filterQuals query_two =
       Some (''Category eq '' @ [CHR 0x27] @ ''UserManagement'' @ [CHR 0x27] @ '' and ''
             @ ''Result eq '' @ [CHR 0x27] @ ''success'' @ [CHR 0x27])
   \<and> directoryAudit_Filter (\<lambda>_. []) (rev filterQuals) query_two =
       Some (''Result eq '' @ [CHR 0x27] @ ''success'' @ [CHR 0x27] @ '' and ''
             @ ''Category eq '' @ [CHR 0x27] @ ''UserManagement'' @ [CHR 0x27])
   \<and> directoryAudit_Filter (\<lambda>_. []) filterQuals query_two
       \<noteq> directoryAudit_Filter (\<lambda>_. []) (rev filterQuals) query_two"
  by (simp add: range_order_fwd range_order_rev filter_fwd filter_rev)

text \<open>
  Claim C6. On \<open>activity_date_time\<close>, a qual \<open>> T\<close> is rendered as \<open>ge\<close> of
  \<open>T\<close> plus one second and \<open>< T\<close> as \<open>le\<close> of \<open>T\<close> minus one second;
  \<open>>=\<close>, \<open><=\<close> and \<open>=\<close> are rendered as \<open>ge\<close>, \<open>le\<close> and \<open>eq\<close> of
  \<open>T\<close> itself. Instants are counted in nanoseconds, and a second is \<open>10\<^sup>9\<close> of them.
\<close>

theorem strict_time_bounds_shift_one_second:
  "activityDateTime_clause F \<lparr> Operator = ''>'', Value = TimestampValue T \<rparr>
     = [''activityDateTime ge '' @ F (T + 1000000000)]
 \<and> activityDateTime_clause F \<lparr> Operator = ''<'', Value = TimestampValue T \<rparr>
     = [''activityDateTime le '' @ F (T - 1000000000)]
 \<and> activityDateTime_clause F \<lparr> Operator = ''>='', Value = TimestampValue T \<rparr>
     = [''activityDateTime ge '' @ F T]
 \<and> activityDateTime_clause F \<lparr> Operator = ''<='', Value = TimestampValue T \<rparr>
     = [''activityDateTime le '' @ F T]
 \<and> activityDateTime_clause F \<lparr> Operator = ''='', Value = TimestampValue T \<rparr>
     = [''activityDateTime eq '' @ F T]
 \<and> Second = 1000000000
 \<and> directoryAudit_Filter F order
       \<lparr> EqualsQuals = Map.empty,
         Quals = [''activity_date_time'' \<mapsto> [\<lparr> Operator = ''>'', Value = TimestampValue T \<rparr>]],
         Limit = lim \<rparr>
     = Some (''activityDateTime ge '' @ F (T + 1000000000))
 \<and> directoryAudit_Filter F order
       \<lparr> EqualsQuals = Map.empty,
         Quals = [''activity_date_time'' \<mapsto> [\<lparr> Operator = ''<'', Value = TimestampValue T \<rparr>]],
         Limit = lim \<rparr>
     = Some (''activityDateTime le '' @ F (T - 1000000000))"
proof -
  have b: "buildDirectoryAuditQueryFilter order Map.empty = []"
    by (induction order) simp_all
  show ?thesis
    by (simp add: activityDateTime_clause_def GetTimestampValue_AsTime_def Add_def Second_def
        directoryAudit_Filter_def directoryAudit_clauses_def b)
qed

section \<open>Properties of the ignorable-error predicate\<close>

lemma Contains_iff: "Contains s substr \<longleftrightarrow> (\<exists>pre post. s = pre @ substr @ post)"
proof (induction s)
  case Nil
  then show ?case by auto
next
  case (Cons c s)
  show ?case
  proof
    assume "Contains (c # s) substr"
    then consider "prefix substr (c # s)" | "Contains s substr" by auto
    then show "\<exists>pre post. c # s = pre @ substr @ post"
    proof cases
      case 1
      then obtain post where "c # s = substr @ post" by (auto simp add: prefix_def)
      then have "c # s = [] @ substr @ post" by simp
      then show ?thesis by blast
    next
      case 2
      with Cons.IH obtain pre post where "s = pre @ substr @ post" by blast
      then have "c # s = (c # pre) @ substr @ post" by simp
      then show ?thesis by blast
    qed
  next
    assume "\<exists>pre post. c # s = pre @ substr @ post"
    then obtain pre post where e: "c # s = pre @ substr @ post" by blast
    show "Contains (c # s) substr"
    proof (cases pre)
      case Nil
      with e have "prefix substr (c # s)" by (simp add: prefix_def)
      then show ?thesis by simp
    next
      case (Cons a pre')
      with e have "s = pre' @ substr @ post" by simp
      with Cons.IH have "Contains s substr" by blast
      then show ?thesis by simp
    qed
  qed
qed

lemma ignorable_items_iff:
  "ignorable_items (Some t) items \<longleftrightarrow>
     (\<exists>item\<in>set items. Code t = item \<or> Contains (Message t) item)"
  by (induction items) auto

lemma ignorable_items_nil: "\<not> ignorable_items None items"
  by (induction items) auto

text \<open>
  Claim C8, as the code has it. For a request error and a list of patterns the predicate
  holds exactly when the code is one of the patterns or one of the patterns occurs in the
  message. So an error with the code \<open>Request_ResourceNotFound\<close> is ignorable under
  every list that contains that code, and it is not ignorable under a list that does not
  contain it provided that no pattern of the list occurs in its message. The \<open>nil\<close>
  error, a \<open>nil\<close> request error and errors of other types are never ignorable.
\<close>

theorem ignorable_iff_code_or_message:
  "(isIgnorableErrorPredicate ps (Some (RequestError_ptr (Some e))) \<longleftrightarrow>
      Code e \<in> set ps \<or> (\<exists>item\<in>set ps. \<exists>pre post. Message e = pre @ item @ post))
 \<and> (Code e = ''Request_ResourceNotFound'' \<and> ''Request_ResourceNotFound'' \<in> set ps
      \<longrightarrow> isIgnorableErrorPredicate ps (Some (RequestError_ptr (Some e))))
 \<and> (Code e = ''Request_ResourceNotFound'' \<and> ''Request_ResourceNotFound'' \<notin> set ps
        \<and> (\<forall>item\<in>set ps. \<not> Contains (Message e) item)
      \<longrightarrow> \<not> isIgnorableErrorPredicate ps (Some (RequestError_ptr (Some e))))
 \<and> \<not> isIgnorableErrorPredicate ps None
 \<and> \<not> isIgnorableErrorPredicate ps (Some (RequestError_ptr None))
 \<and> \<not> isIgnorableErrorPredicate ps (Some (Other_error m))"
proof -
  have main: "isIgnorableErrorPredicate ps (Some (RequestError_ptr (Some e))) \<longleftrightarrow>
      (\<exists>item\<in>set ps. Code e = item \<or> Contains (Message e) item)"
    by (simp add: isIgnorableErrorPredicate_def ignorable_items_iff)
  have a: "isIgnorableErrorPredicate ps (Some (RequestError_ptr (Some e))) \<longleftrightarrow>
      Code e \<in> set ps \<or> (\<exists>item\<in>set ps. \<exists>pre post. Message e = pre @ item @ post)"
    unfolding main Contains_iff by blast
  have b: "Code e = ''Request_ResourceNotFound'' \<and> ''Request_ResourceNotFound'' \<in> set ps
      \<longrightarrow> isIgnorableErrorPredicate ps (Some (RequestError_ptr (Some e)))"
    unfolding main by blast
  have c: "Code e = ''Request_ResourceNotFound'' \<and> ''Request_ResourceNotFound'' \<notin> set ps
        \<and> (\<forall>item\<in>set ps. \<not> Contains (Message e) item)
      \<longrightarrow> \<not> isIgnorableErrorPredicate ps (Some (RequestError_ptr (Some e)))"
    unfolding main by auto
  have d: "\<not> isIgnorableErrorPredicate ps None"
    "\<not> isIgnorableErrorPredicate ps (Some (RequestError_ptr None))"
    "\<not> isIgnorableErrorPredicate ps (Some (Other_error m))"
    by (simp_all add: isIgnorableErrorPredicate_def ignorable_items_nil)
  from a b c d show ?thesis by blast
qed

theorem ignorable_iff_code_or_message_witness:
  "isIgnorableErrorPredicate directoryAuditReport_Get_ignore
     (Some (RequestError_ptr (Some \<lparr> Code = ''Request_ResourceNotFound'',
                                      Message = ''Resource does not exist'' \<rparr>)))
 \<and> ''Request_ResourceNotFound'' \<in> set directoryAuditReport_Get_ignore
 \<and> \<not> isIgnorableErrorPredicate [''Request_BadRequest'']
     (Some (RequestError_ptr (Some \<lparr> Code = ''Request_ResourceNotFound'',
                                      Message = ''Resource does not exist'' \<rparr>)))
 \<and> ''Request_ResourceNotFound'' \<notin> set [''Request_BadRequest'']
 \<and> \<not> Contains ''Resource does not exist'' ''Request_BadRequest''"
proof -
  let ?e = "\<lparr> Code = ''Request_ResourceNotFound'', Message = ''Resource does not exist'' \<rparr>"
  have h1: "Code ?e = ''Request_ResourceNotFound''
      \<and> ''Request_ResourceNotFound'' \<in> set directoryAuditReport_Get_ignore"
    by (simp add: directoryAuditReport_Get_ignore_def)
  have n: "\<not> Contains ''Resource does not exist'' ''Request_BadRequest''"
    by simp
  then have h2: "Code ?e = ''Request_ResourceNotFound''
      \<and> ''Request_ResourceNotFound'' \<notin> set [''Request_BadRequest'']
      \<and> (\<forall>item\<in>set [''Request_BadRequest'']. \<not> Contains (Message ?e) item)"
    by simp
  have a: "isIgnorableErrorPredicate directoryAuditReport_Get_ignore (Some (RequestError_ptr (Some ?e)))"
    using ignorable_iff_code_or_message [of directoryAuditReport_Get_ignore ?e] h1 by blast
  have b: "\<not> isIgnorableErrorPredicate [''Request_BadRequest''] (Some (RequestError_ptr (Some ?e)))"
    using ignorable_iff_code_or_message [of "[''Request_BadRequest'']" ?e] h2 by blast
  from a b h1 h2 n show ?thesis by blast
qed

text \<open>
  The claim as written says that such an error is fatal under every list without its
  code. It is not when a pattern of the list occurs in the message:
\<close>

theorem ignorable_without_code_counterexample:
  "isIgnorableErrorPredicate [''Invalid object identifier'']
     (Some (RequestError_ptr (Some \<lparr> Code = ''Request_ResourceNotFound'',
                                      Message = ''Invalid object identifier 42'' \<rparr>)))
 \<and> ''Request_ResourceNotFound'' \<notin> set [''Invalid object identifier'']"
  by (simp add: isIgnorableErrorPredicate_def)

section \<open>Properties of the Azure CLI launch\<close>

text \<open>
  What the prepared command does achieve: the process that is started sees the fixed
  search path, whatever \<open>PATH\<close> the plugin inherited.
\<close>

lemma childGetenv_last:
  assumes "CHR ''='' \<in> set kv" and "envKey kv = k"
  shows "childGetenv (kvs @ [kv]) k = Some (envValue kv)"
  using assms by (induction kvs) simp_all

lemma child_PATH_unix:
  assumes "GOOS h \<noteq> ''windows''"
  shows "childGetenv (Env (getTenantFromCLI_cmd h env)) ''PATH''
           = Some (Getenv env azureCLIPath @ '':'' @ azureCLIDefaultPath)"
proof -
  have "Env (getTenantFromCLI_cmd h env) =
          Environ env @ [''PATH='' @ Getenv env azureCLIPath @ '':'' @ azureCLIDefaultPath]"
    using assms by (simp add: getTenantFromCLI_cmd_def Let_def)
  moreover have "childGetenv (Environ env @ [''PATH='' @ Getenv env azureCLIPath @ '':'' @ azureCLIDefaultPath]) ''PATH''
     = Some (envValue (''PATH='' @ Getenv env azureCLIPath @ '':'' @ azureCLIDefaultPath))"
    by (rule childGetenv_last) simp_all
  ultimately show ?thesis by simp
qed

text \<open>
  Claim C9. The claim is that the helper binary is located on the fixed default list plus
  \<open>AzureCLIPath\<close> only, independently of the inherited \<open>PATH\<close>. On a non-Windows
  host the binary is located when \<open>exec.Command("az")\<close> is called, by a lookup on the
  \<open>PATH\<close> of the plugin's own process; the \<open>PATH\<close> entry appended to
  \<open>cliCmd.Env\<close> afterwards reaches the started process only. Two environments that
  differ in \<open>PATH\<close> alone start two different binaries, and a binary that is only in
  the \<open>AzureCLIPath\<close> directory is not found:
\<close>

theorem az_is_looked_up_on_ambient_path:
  "filter (\<lambda>kv. fst kv \<noteq> ''PATH'') env_planted = filter (\<lambda>kv. fst kv \<noteq> ''PATH'') env_clean
 \<and> Path (getTenantFromCLI_cmd host_three env_planted) = ''/tmp/planted/az''
 \<and> Path (getTenantFromCLI_cmd host_three env_clean) = ''/usr/bin/az''
 \<and> getTenantFromCLI host_three env_planted = Inr ''/tmp/planted/az''
 \<and> getTenantFromCLI host_three env_clean = Inr ''/usr/bin/az''
 \<and> childGetenv (Env (getTenantFromCLI_cmd host_three env_planted)) ''PATH''
     = Some ''/opt/az/bin:/bin:/sbin:/usr/bin:/usr/local/bin''
 \<and> childGetenv (Env (getTenantFromCLI_cmd host_three env_clean)) ''PATH''
     = Some ''/opt/az/bin:/bin:/sbin:/usr/bin:/usr/local/bin''
 \<and> getTenantFromCLI (host_unix [''/opt/az/bin/az'']) env_clean
     = Inl az_not_found"
proof -
  have c1: "getTenantFromCLI_cmd host_three env_planted =
     \<lparr> Path = ''/tmp/planted/az'',
       Args = [''az'', ''account'', ''get-access-token'', ''--resource-type=ms-graph'', ''-o'', ''json''],
       Env = [''PATH=/tmp/planted:/usr/bin'', ''AzureCLIPath=/opt/az/bin'',
              ''PATH=/opt/az/bin:/bin:/sbin:/usr/bin:/usr/local/bin''],
       Err = None \<rparr>"
    by (simp add: getTenantFromCLI_cmd_def Command_def LookPath_def joinDir_def host_three_def host_unix_def
        env_planted_def Getenv_def Environ_def SplitList_def Let_def azureCLIPath_def
        azureCLIDefaultPath_def)
  have c2: "getTenantFromCLI_cmd host_three env_clean =
     \<lparr> Path = ''/usr/bin/az'',
       Args = [''az'', ''account'', ''get-access-token'', ''--resource-type=ms-graph'', ''-o'', ''json''],
       Env = [''PATH=/usr/bin'', ''AzureCLIPath=/opt/az/bin'',
              ''PATH=/opt/az/bin:/bin:/sbin:/usr/bin:/usr/local/bin''],
       Err = None \<rparr>"
    by (simp add: getTenantFromCLI_cmd_def Command_def LookPath_def joinDir_def host_three_def host_unix_def
        env_clean_def Getenv_def Environ_def SplitList_def Let_def azureCLIPath_def
        azureCLIDefaultPath_def)
  have c3: "getTenantFromCLI_cmd (host_unix [''/opt/az/bin/az'']) env_clean =
     \<lparr> Path = ''az'',
       Args = [''az'', ''account'', ''get-access-token'', ''--resource-type=ms-graph'', ''-o'', ''json''],
       Env = [''PATH=/usr/bin'', ''AzureCLIPath=/opt/az/bin'',
              ''PATH=/opt/az/bin:/bin:/sbin:/usr/bin:/usr/local/bin''],
       Err = Some (exec_Error ''az'' ''executable file not found in $PATH'') \<rparr>"
    by (simp add: getTenantFromCLI_cmd_def Command_def LookPath_def joinDir_def host_unix_def
        env_clean_def Getenv_def Environ_def SplitList_def Let_def azureCLIPath_def
        azureCLIDefaultPath_def)
  have e: "filter (\<lambda>kv. fst kv \<noteq> ''PATH'') env_planted = filter (\<lambda>kv. fst kv \<noteq> ''PATH'') env_clean"
    by (simp add: env_planted_def env_clean_def)
  have t1: "getTenantFromCLI host_three env_planted = Inr ''/tmp/planted/az''"
    by (simp add: getTenantFromCLI_def c1 Let_def) (simp add: host_three_def host_unix_def)
  have t2: "getTenantFromCLI host_three env_clean = Inr ''/usr/bin/az''"
    by (simp add: getTenantFromCLI_def c2 Let_def) (simp add: host_three_def host_unix_def)
  have t3: "getTenantFromCLI (host_unix [''/opt/az/bin/az'']) env_clean
     = Inl az_not_found"
    by (simp add: getTenantFromCLI_def c3 Let_def az_not_found_def)
  have p: "childGetenv [''PATH=/tmp/planted:/usr/bin'', ''AzureCLIPath=/opt/az/bin'',
              ''PATH=/opt/az/bin:/bin:/sbin:/usr/bin:/usr/local/bin''] ''PATH''
            = Some ''/opt/az/bin:/bin:/sbin:/usr/bin:/usr/local/bin''"
    "childGetenv [''PATH=/usr/bin'', ''AzureCLIPath=/opt/az/bin'',
              ''PATH=/opt/az/bin:/bin:/sbin:/usr/bin:/usr/local/bin''] ''PATH''
            = Some ''/opt/az/bin:/bin:/sbin:/usr/bin:/usr/local/bin''"
    by simp_all
  from e t1 t2 t3 p show ?thesis by (simp add: c1 c2)
qed


end
